theory Spec2Isabelle
  imports Main
begin

section \<open>Strings and regular expressions\<close>

text \<open>
  The template language is ASCII; a JavaScript string is modelled as a \<open>string\<close>
  (a list of 8-bit characters). White space is what \<open>String.prototype.trim\<close> and the
  regular expression class \<open>\s\<close> accept among the ASCII characters: space, tab, line feed,
  vertical tab, form feed and carriage return.
\<close>

definition is_space :: "char \<Rightarrow> bool" where
  "is_space c = (c = CHR '' '' \<or> c = CHR 0x09 \<or> c = CHR 0x0A \<or> c = CHR 0x0B
                 \<or> c = CHR 0x0C \<or> c = CHR 0x0D)"

definition is_lower :: "char \<Rightarrow> bool" where
  "is_lower c = ((97::nat) \<le> of_char c \<and> of_char c \<le> (122::nat))"

definition is_upper :: "char \<Rightarrow> bool" where
  "is_upper c = ((65::nat) \<le> of_char c \<and> of_char c \<le> (90::nat))"

definition is_letter :: "char \<Rightarrow> bool" where
  "is_letter c = (is_lower c \<or> is_upper c)"

text \<open>\<open>[a-z_]\<close>\<close>

definition is_lower_us :: "char \<Rightarrow> bool" where
  "is_lower_us c = (is_lower c \<or> c = CHR ''_'')"

text \<open>\<open>.\<close> of a regular expression: any character but a line terminator.\<close>

definition is_dot :: "char \<Rightarrow> bool" where
  "is_dot c = (c \<noteq> CHR 0x0A \<and> c \<noteq> CHR 0x0D)"

definition trim :: "string \<Rightarrow> string" where
  "trim s = rev (dropWhile is_space (rev (dropWhile is_space s)))"

definition startsWith :: "string \<Rightarrow> string \<Rightarrow> bool" where
  "startsWith s t = (take (length t) s = t)"

text \<open>\<open>s.split(d)\<close> for a one-character separator: always at least one part.\<close>

fun split_on :: "char \<Rightarrow> string \<Rightarrow> string list" where
  "split_on d [] = [[]]"
| "split_on d (c # cs) =
     (if c = d then [] # split_on d cs
      else (case split_on d cs of [] \<Rightarrow> [[c]] | p # ps \<Rightarrow> (c # p) # ps))"

text \<open>\<open>parts.join(d)\<close>\<close>

fun join_with :: "char \<Rightarrow> string list \<Rightarrow> string" where
  "join_with d [] = []"
| "join_with d [p] = p"
| "join_with d (p # q # ps) = p @ d # join_with d (q # ps)"

text \<open>\<open>s.slice(1)\<close> and \<open>s.slice(1, -1)\<close>\<close>

definition slice1 :: "string \<Rightarrow> string" where
  "slice1 s = drop 1 s"

definition slice_inner :: "'a list \<Rightarrow> 'a list" where
  "slice_inner s = butlast (drop 1 s)"

text \<open>
  \<open>text.split(/\r?\n/)\<close>: the text is cut at every line feed, and a carriage return
  right before the line feed belongs to the separator.
\<close>

definition strip_cr :: "string \<Rightarrow> string" where
  "strip_cr s = (if s \<noteq> [] \<and> last s = CHR 0x0D then butlast s else s)"

definition split_lines :: "string \<Rightarrow> string list" where
  "split_lines t = (let ps = split_on (CHR 0x0A) t in map strip_cr (butlast ps) @ [last ps])"

text \<open>
  Regular expressions, matched against a whole string by Brzozowski derivatives. An atom
  is a character class. The constructors \<open>plus\<close> and \<open>times\<close> keep derivatives small.
\<close>

datatype rexp =
    Zero
  | One
  | Atom "char \<Rightarrow> bool"
  | Plus rexp rexp
  | Times rexp rexp
  | Star rexp

fun nullable :: "rexp \<Rightarrow> bool" where
  "nullable Zero = False"
| "nullable One = True"
| "nullable (Atom p) = False"
| "nullable (Plus r s) = (nullable r \<or> nullable s)"
| "nullable (Times r s) = (nullable r \<and> nullable s)"
| "nullable (Star r) = True"

fun plus :: "rexp \<Rightarrow> rexp \<Rightarrow> rexp" where
  "plus Zero s = s"
| "plus r Zero = r"
| "plus r s = Plus r s"

fun times :: "rexp \<Rightarrow> rexp \<Rightarrow> rexp" where
  "times Zero s = Zero"
| "times One s = s"
| "times r Zero = Zero"
| "times r s = Times r s"

fun deriv :: "char \<Rightarrow> rexp \<Rightarrow> rexp" where
  "deriv c Zero = Zero"
| "deriv c One = Zero"
| "deriv c (Atom p) = (if p c then One else Zero)"
| "deriv c (Plus r s) = plus (deriv c r) (deriv c s)"
| "deriv c (Times r s) =
     (if nullable r then plus (times (deriv c r) s) (deriv c s) else times (deriv c r) s)"
| "deriv c (Star r) = times (deriv c r) (Star r)"

fun matches :: "rexp \<Rightarrow> string \<Rightarrow> bool" where
  "matches r [] = nullable r"
| "matches r (c # cs) = matches (deriv c r) cs"

definition chr :: "char \<Rightarrow> rexp" where
  "chr c = Atom (\<lambda>d. d = c)"

fun lit :: "string \<Rightarrow> rexp" where
  "lit [] = One"
| "lit (c # cs) = Times (chr c) (lit cs)"

definition opt :: "rexp \<Rightarrow> rexp" where
  "opt r = Plus One r"

definition plus1 :: "rexp \<Rightarrow> rexp" where
  "plus1 r = Times r (Star r)"

definition anything :: rexp where
  "anything = Star (Atom (\<lambda>_. True))"

fun seq :: "rexp list \<Rightarrow> rexp" where
  "seq [] = One"
| "seq [r] = r"
| "seq (r # rs) = Times r (seq rs)"

text \<open>\<open>[a-z][a-z_]*\<close> and \<open>[a-z][a-z_]+\<close>\<close>

definition ident :: rexp where
  "ident = Times (Atom is_lower) (Star (Atom is_lower_us))"

definition ident2 :: rexp where
  "ident2 = Times (Atom is_lower) (plus1 (Atom is_lower_us))"

definition spaces :: rexp where
  "spaces = Star (chr CHR '' '')"

text \<open>The constants of the module, in the order of the source.\<close>

definition TAG_DATA :: string where "TAG_DATA = ''#data''"
definition TAG_VIEW :: string where "TAG_VIEW = ''#view''"
definition SERVICE_CHAR :: string where "SERVICE_CHAR = ''@''"

text \<open>\<open>/^[ \t]*\/\//\<close> (no end anchor: anything may follow)\<close>

definition REGEXP_LINE_COMMENT :: rexp where
  "REGEXP_LINE_COMMENT =
     seq [Star (Atom (\<lambda>c. c = CHR '' '' \<or> c = CHR 0x09)), lit ''//'', anything]"

text \<open>\<open>/^[ \t]*$/\<close>\<close>

definition REGEXP_LINE_EMPTY :: rexp where
  "REGEXP_LINE_EMPTY = Star (Atom (\<lambda>c. c = CHR '' '' \<or> c = CHR 0x09))"

text \<open>\<open>/^'.*'$/\<close>\<close>

definition REGEXP_STRING_LITERAL :: rexp where
  "REGEXP_STRING_LITERAL = seq [chr (CHR 0x27), Star (Atom is_dot), chr (CHR 0x27)]"

text \<open>\<open>/\\\s*$/\<close> (no start anchor: anything may precede)\<close>

definition REGEXP_LINE_CARRY :: rexp where
  "REGEXP_LINE_CARRY = seq [anything, chr (CHR 0x5C), Star (Atom is_space)]"

text \<open>\<open>/^#data\s*$/\<close>\<close>

definition REGEXP_HEAD_DATA :: rexp where
  "REGEXP_HEAD_DATA = seq [lit ''#data'', Star (Atom is_space)]"

text \<open>\<open>/^#view\(([a-z][a-z_]+)\)(\[([a-z][a-z_]+)\])?\s*$/\<close>\<close>

definition REGEXP_HEAD_VIEW :: rexp where
  "REGEXP_HEAD_VIEW =
     seq [lit ''#view('', ident2, chr CHR '')'',
          opt (seq [chr CHR ''['', ident2, chr CHR '']'']), Star (Atom is_space)]"

text \<open>\<open>/^[@$][a-z][a-z_]*$/\<close>\<close>

definition REGEXP_IDENTIFIER :: rexp where
  "REGEXP_IDENTIFIER = seq [Atom (\<lambda>c. c = CHR ''@'' \<or> c = CHR ''$''), ident]"

text \<open>\<open>/^[@$]internal_/\<close>\<close>

definition REGEXP_INTERNAL_IDENTIFIER :: rexp where
  "REGEXP_INTERNAL_IDENTIFIER =
     seq [Atom (\<lambda>c. c = CHR ''@'' \<or> c = CHR ''$''), lit ''internal_'', anything]"

text \<open>\<open>/^([a-z][a-z_]*) *<- *(@[a-z][a-z_]*)*$/\<close>\<close>

definition REGEXP_VARIABLE :: rexp where
  "REGEXP_VARIABLE =
     seq [ident, spaces, lit ''<-'', spaces, Star (Times (chr CHR ''@'') ident)]"

text \<open>\<open>/^([A-Z][a-zA-Z]+) *({ *([a-z][a-z_]* *= *\$[a-z][a-z_]*; *)+ *})?$/\<close>\<close>

definition REGEXP_SERVICE :: rexp where
  "REGEXP_SERVICE =
     seq [Atom is_upper, plus1 (Atom is_letter), spaces,
          opt (seq [chr CHR ''{'', spaces,
                    plus1 (seq [ident, spaces, chr CHR ''='', spaces, chr CHR ''$'', ident,
                                chr CHR '';'', spaces]),
                    spaces, chr CHR ''}''])]"

definition SYSTEM_SERVICE :: "string list" where
  "SYSTEM_SERVICE = [''Arguments'']"


section \<open>Data model\<close>

text \<open>
  The error classes of the module, and \<open>TypeError\<close> for what the JavaScript runtime
  throws when a property of \<open>undefined\<close> is read. \<open>OtherError\<close> is any other
  exception a provider may throw.
\<close>

datatype error = TemplaterError | SystemError | TypingError | TypeError | OtherError

text \<open>
  A variable descriptor: \<open>{ type: "const", constant }\<close> or
  \<open>{ type: "ref", fieldKey, service }\<close>.
\<close>

datatype Variable =
    VariableConst (the_constant: string)
  | VariableRef (fieldKey: string) (service: string)

text \<open>A dependency \<open>{ key, name, variableName }\<close> and a service \<open>{ key, name, dependencies }\<close>.\<close>

record Dependency =
  dep_key :: string
  dep_name :: string
  variableName :: string

record Service =
  key :: string
  name :: string
  dependencies :: "Dependency list"

text \<open>
  A JavaScript \<open>Map\<close> with string keys is an association list in insertion order:
  \<open>set\<close> of a present key replaces the value in place, \<open>set\<close> of a new key appends.
\<close>

fun map_get :: "(string \<times> 'v) list \<Rightarrow> string \<Rightarrow> 'v option" where
  "map_get [] k = None"
| "map_get ((k', v) # m) k = (if k' = k then Some v else map_get m k)"

fun map_set :: "string \<Rightarrow> 'v \<Rightarrow> (string \<times> 'v) list \<Rightarrow> (string \<times> 'v) list" where
  "map_set k v [] = [(k, v)]"
| "map_set k v ((k', v') # m) = (if k' = k then (k, v) # m else (k', v') # map_set k v m)"

record ResolverContext =
  variables :: "(string \<times> Variable) list"
  services :: "(string \<times> Service) list"

definition newResolverContext :: ResolverContext where
  "newResolverContext = \<lparr> variables = [], services = [] \<rparr>"

definition registVariable :: "string \<Rightarrow> Variable \<Rightarrow> ResolverContext \<Rightarrow> ResolverContext" where
  "registVariable k v ctx = ctx \<lparr> variables := map_set k v (variables ctx) \<rparr>"

definition registService ::
  "string \<Rightarrow> string \<Rightarrow> Dependency list \<Rightarrow> ResolverContext \<Rightarrow> ResolverContext" where
  "registService k providerName deps ctx =
     ctx \<lparr> services :=
       map_set k \<lparr> key = k, name = providerName, dependencies = deps \<rparr> (services ctx) \<rparr>"

section \<open>Parser\<close>

text \<open>
  \<open>findIndexTag\<close> returns the first index from \<open>fromIndex\<close> on of a line that starts with
  the tag; \<open>None\<close> stands for \<open>-1\<close>.
\<close>

fun findIndexTag :: "string list \<Rightarrow> string \<Rightarrow> nat \<Rightarrow> nat option" where
  "findIndexTag [] tag fromIndex = None"
| "findIndexTag (l # ls) tag fromIndex =
     (if fromIndex = 0 then
        (if startsWith l tag then Some 0 else map_option Suc (findIndexTag ls tag 0))
      else map_option Suc (findIndexTag ls tag (fromIndex - 1)))"

definition findIndexDataTag :: "string list \<Rightarrow> error + nat" where
  "findIndexDataTag lines =
     (case findIndexTag lines TAG_DATA 0 of
        None \<Rightarrow> Inl TemplaterError
      | Some regionDataIndex \<Rightarrow>
          (case findIndexTag lines TAG_DATA (regionDataIndex + 1) of
             Some _ \<Rightarrow> Inl TemplaterError
           | None \<Rightarrow> Inr regionDataIndex))"

text \<open>
  The \<open>while (true)\<close> loop of \<open>findIndexesViewTag\<close> searches again after the last index
  found; every round moves past one more line, so \<open>fuel\<close> = the number of lines is enough.
\<close>

fun moreIndexes :: "nat \<Rightarrow> string list \<Rightarrow> nat \<Rightarrow> nat list" where
  "moreIndexes 0 lines lastIndex = []"
| "moreIndexes (Suc fuel) lines lastIndex =
     (case findIndexTag lines TAG_VIEW (lastIndex + 1) of
        None \<Rightarrow> []
      | Some i \<Rightarrow> i # moreIndexes fuel lines i)"

definition findIndexesViewTag :: "string list \<Rightarrow> error + nat list" where
  "findIndexesViewTag lines =
     (case findIndexTag lines TAG_VIEW 0 of
        None \<Rightarrow> Inl TemplaterError
      | Some regionViewIndex \<Rightarrow>
          Inr (regionViewIndex # moreIndexes (length lines) lines regionViewIndex))"

text \<open>\<open>lines.slice(a, b)\<close>\<close>

definition slice :: "'a list \<Rightarrow> nat \<Rightarrow> nat \<Rightarrow> 'a list" where
  "slice xs a b = take (b - a) (drop a xs)"

fun splitesViewsRegions :: "string list \<Rightarrow> nat list \<Rightarrow> string list list" where
  "splitesViewsRegions lines [] = []"
| "splitesViewsRegions lines [i] = [slice lines i (length lines)]"
| "splitesViewsRegions lines (i # j # is) = slice lines i j # splitesViewsRegions lines (j # is)"

definition splitRegions :: "string \<Rightarrow> error + (string list \<times> string list list)" where
  "splitRegions t =
     (let lines = split_lines t in
      case findIndexDataTag lines of
        Inl e \<Rightarrow> Inl e
      | Inr regionDataIndex \<Rightarrow>
          (case findIndexesViewTag lines of
             Inl e \<Rightarrow> Inl e
           | Inr regionViewIndexes \<Rightarrow>
               if regionDataIndex > hd regionViewIndexes then Inl TemplaterError
               else Inr (slice lines regionDataIndex (hd regionViewIndexes),
                         splitesViewsRegions lines regionViewIndexes)))"

text \<open>
  The groups of a successful \<open>REGEXP_SERVICE.exec\<close>: the provider name is the leading run
  of letters (what follows it is a space, a brace or the end), and the second group is
  the rest of the line after the spaces, \<open>None\<close> when nothing is left.
\<close>

definition exec_service :: "string \<Rightarrow> (string \<times> string option) option" where
  "exec_service line =
     (if matches REGEXP_SERVICE line then
        Some (takeWhile is_letter line,
              (let r = dropWhile (\<lambda>c. c = CHR '' '') (dropWhile is_letter line)
               in if r = [] then None else Some r))
      else None)"

text \<open>
  The groups of a successful \<open>REGEXP_VARIABLE.exec\<close>: the field key is the leading run of
  \<open>[a-z_]\<close>; the second group is the last repetition of \<open>@name\<close>, that is the text from
  the last \<open>@\<close> on, and \<open>None\<close> (undefined) when the line has no \<open>@\<close>.
\<close>

definition last_at :: "string \<Rightarrow> string option" where
  "last_at line =
     (if CHR ''@'' \<in> set line
      then Some (CHR ''@'' # rev (takeWhile (\<lambda>c. c \<noteq> CHR ''@'') (rev line)))
      else None)"

definition exec_variable :: "string \<Rightarrow> (string \<times> string option) option" where
  "exec_variable line =
     (if matches REGEXP_VARIABLE line then Some (takeWhile is_lower_us line, last_at line)
      else None)"

text \<open>
  The groups 1 and 3 of a successful \<open>REGEXP_HEAD_VIEW.exec\<close>: the name between the
  parentheses, and the name between the brackets when there are brackets.
\<close>

definition exec_head_view :: "string \<Rightarrow> (string \<times> string option) option" where
  "exec_head_view head =
     (if matches REGEXP_HEAD_VIEW head then
        Some (takeWhile (\<lambda>c. c \<noteq> CHR '')'') (drop 6 head),
              (if CHR ''['' \<in> set head
               then Some (takeWhile (\<lambda>c. c \<noteq> CHR '']'')
                            (drop 1 (dropWhile (\<lambda>c. c \<noteq> CHR ''['') head)))
               else None))
      else None)"

record ViewRegion =
  view_name :: string
  view_render :: string
  view_text :: string

definition parseViewRegion :: "string list \<Rightarrow> error + ViewRegion" where
  "parseViewRegion texts =
     (case texts of
        [] \<Rightarrow> Inl TemplaterError
      | head # lines \<Rightarrow>
          (case exec_head_view head of
             None \<Rightarrow> Inl TemplaterError
           | Some (nm, r) \<Rightarrow>
               Inr \<lparr> view_name = nm,
                     view_render = (case r of None \<Rightarrow> ''default'' | Some x \<Rightarrow> x),
                     view_text = join_with (CHR 0x0A) lines \<rparr>))"

fun parseViewRegions :: "string list list \<Rightarrow> (string \<times> ViewRegion) list \<Rightarrow>
    error + (string \<times> ViewRegion) list" where
  "parseViewRegions [] records = Inr records"
| "parseViewRegions (region # regions) records =
     (case parseViewRegion region of
        Inl e \<Rightarrow> Inl e
      | Inr parsed \<Rightarrow> parseViewRegions regions (map_set (view_name parsed) parsed records))"

text \<open>
  \<open>parseDataServiceDependencies\<close>: the text between the braces, cut at the semicolons,
  the part after the last semicolon dropped; each entry is cut at \<open>=\<close> and both sides
  trimmed. The function is only called on a group that \<open>REGEXP_SERVICE\<close> matched, where
  every entry holds an \<open>=\<close>.
\<close>

definition parseDependency :: "string \<Rightarrow> Dependency" where
  "parseDependency assign =
     (let parts = map trim (split_on (CHR ''='') assign);
          k = hd parts;
          v = (case tl parts of [] \<Rightarrow> [] | x # _ \<Rightarrow> x)
      in \<lparr> dep_key = k, dep_name = k, variableName = slice1 v \<rparr>)"

definition parseDataServiceDependencies :: "string \<Rightarrow> Dependency list" where
  "parseDataServiceDependencies t =
     map parseDependency (butlast (split_on (CHR '';'') (slice_inner t)))"

text \<open>
  \<open>parseDataSeviceLine\<close>: a right-hand side that \<open>REGEXP_SERVICE\<close> does not match
  registers nothing and raises nothing.
\<close>

definition parseDataSeviceLine :: "string \<Rightarrow> string \<Rightarrow> ResolverContext \<Rightarrow> error + ResolverContext"
  where
  "parseDataSeviceLine nm line ctx =
     (case exec_service line of
        Some (providerName, args) \<Rightarrow>
          Inr (registService nm providerName
                 (case args of Some a \<Rightarrow> parseDataServiceDependencies a | None \<Rightarrow> []) ctx)
      | None \<Rightarrow> Inr ctx)"

definition parseDataVariableLine ::
  "string \<Rightarrow> string \<Rightarrow> ResolverContext \<Rightarrow> error + ResolverContext" where
  "parseDataVariableLine nm line ctx =
     (if matches REGEXP_STRING_LITERAL line then
        Inr (registVariable nm (VariableConst (slice_inner line)) ctx)
      else
        (case exec_variable line of
           Some (k, srv) \<Rightarrow>
             (case srv of
                None \<Rightarrow> Inl TypeError
              | Some s \<Rightarrow> Inr (registVariable nm (VariableRef k (slice1 s)) ctx))
         | None \<Rightarrow>
             (case map_get (variables ctx) (slice1 (trim line)) of
                Some aliasVariable \<Rightarrow> Inr (registVariable nm aliasVariable ctx)
              | None \<Rightarrow> Inl TemplaterError)))"

definition parseDataLine :: "string \<Rightarrow> ResolverContext \<Rightarrow> error + ResolverContext" where
  "parseDataLine line ctx =
     (let parts = split_on (CHR ''='') line;
          ident_text = trim (hd parts);
          assign = trim (join_with (CHR ''='') (tl parts))
      in if \<not> matches REGEXP_IDENTIFIER ident_text then Inl TemplaterError
         else if matches REGEXP_INTERNAL_IDENTIFIER ident_text then Inl TemplaterError
         else if startsWith ident_text SERVICE_CHAR
              then parseDataSeviceLine (slice1 ident_text) assign ctx
              else parseDataVariableLine (slice1 ident_text) assign ctx)"

text \<open>
  The first loop of \<open>parseDataRegion\<close>: comment and blank lines are skipped, a line whose
  last non-blank character is a backslash is carried into the next one.
  \<open>replace_carry\<close> is \<open>lineBuild.replace(REGEXP_LINE_CARRY, "")\<close>: the leftmost
  backslash that has only white space after it is removed with that white space.
\<close>

fun replace_carry :: "string \<Rightarrow> string" where
  "replace_carry [] = []"
| "replace_carry (c # cs) =
     (if c = CHR 0x5C \<and> list_all is_space cs then [] else c # replace_carry cs)"

fun prepareLines :: "string list \<Rightarrow> string \<Rightarrow> string list" where
  "prepareLines [] lineBuild = (if lineBuild \<noteq> [] then [lineBuild] else [])"
| "prepareLines (line # lines) lineBuild =
     (if matches REGEXP_LINE_COMMENT line \<or> matches REGEXP_LINE_EMPTY line
      then prepareLines lines lineBuild
      else if \<not> matches REGEXP_LINE_CARRY line
      then (lineBuild @ trim line) # prepareLines lines []
      else prepareLines lines (replace_carry (lineBuild @ trim line)))"

fun parseDataLines :: "string list \<Rightarrow> ResolverContext \<Rightarrow> error + ResolverContext" where
  "parseDataLines [] ctx = Inr ctx"
| "parseDataLines (line # lines) ctx =
     (case parseDataLine (trim line) ctx of
        Inl e \<Rightarrow> Inl e
      | Inr ctx' \<Rightarrow> parseDataLines lines ctx')"

definition parseDataRegion :: "string list \<Rightarrow> ResolverContext \<Rightarrow> error + ResolverContext" where
  "parseDataRegion texts ctx =
     (case texts of
        [] \<Rightarrow> Inl TemplaterError
      | head # lines \<Rightarrow>
          if \<not> matches REGEXP_HEAD_DATA head then Inl TemplaterError
          else parseDataLines (prepareLines lines []) ctx)"

text \<open>\<open>Parser.parse\<close>: the views are parsed before the data region.\<close>

definition parse :: "string \<Rightarrow> error + ((string \<times> ViewRegion) list \<times> ResolverContext)" where
  "parse t =
     (case splitRegions t of
        Inl e \<Rightarrow> Inl e
      | Inr (data_lines, views) \<Rightarrow>
          (case parseViewRegions views [] of
             Inl e \<Rightarrow> Inl e
           | Inr regions \<Rightarrow>
               (case parseDataRegion data_lines newResolverContext of
                  Inl e \<Rightarrow> Inl e
                | Inr ctx \<Rightarrow> Inr (regions, ctx))))"


section \<open>Provider registry\<close>

text \<open>
  A runtime value (\<open>ResolverAvailableTypes\<close>: a string, an array, or \<open>undefined\<close>).
  The elements of an array are values again, so that an array that is not an array of
  strings can be written. A plain object used as a record (\<open>Record<string, ...>\<close>) is a
  finite map; reading a missing property gives \<open>undefined\<close>. Property names are taken not
  to collide with the members of \<open>Object.prototype\<close>.
\<close>

datatype jsval = Undefined | Str string | Arr "jsval list"

type_synonym JsRecord = "string \<rightharpoonup> jsval"

definition rd :: "JsRecord \<Rightarrow> string \<Rightarrow> jsval" where
  "rd r k = (case r k of None \<Rightarrow> Undefined | Some v \<Rightarrow> v)"

text \<open>The kinds of an argument model: \<open>'string'\<close> and \<open>'string[]'\<close>.\<close>

datatype ArgKind = KString | KStringArray

type_synonym ArgsModel = "(string \<times> ArgKind list) list"

text \<open>
  A provider callback takes the batch of argument records and returns the batch of output
  records, or throws. \<open>argsModel\<close> is \<open>None\<close> when it is not an object (the executor
  tests it for truthiness).
\<close>

type_synonym ResolverCallback = "JsRecord list \<Rightarrow> error + JsRecord list"

record ResolverValue =
  argsModel :: "ArgsModel option"
  callback :: ResolverCallback

type_synonym Resolvers = "(string \<times> ResolverValue) list"

definition isSystemResolverName :: "string \<Rightarrow> bool" where
  "isSystemResolverName nm = (nm \<in> set SYSTEM_SERVICE)"

text \<open>\<open>Resolver.create\<close>: every system service is registered with a callback that throws \<open>SystemError\<close>.\<close>

definition systemResolver :: ResolverValue where
  "systemResolver = \<lparr> argsModel = Some [], callback = (\<lambda>_. Inl SystemError) \<rparr>"

definition createResolver :: Resolvers where
  "createResolver = map (\<lambda>nm. (nm, systemResolver)) SYSTEM_SERVICE"

text \<open>\<open>Resolver.registService(name, resolver, argsModel = {})\<close>\<close>

definition registResolver ::
  "string \<Rightarrow> ResolverCallback \<Rightarrow> ArgsModel option \<Rightarrow> Resolvers \<Rightarrow> error + Resolvers" where
  "registResolver nm cb am rs =
     (if isSystemResolverName nm then Inl TemplaterError
      else Inr (map_set nm \<lparr> argsModel = am, callback = cb \<rparr> rs))"

section \<open>Graph builder\<close>

definition map_has :: "(string \<times> 'v) list \<Rightarrow> string \<Rightarrow> bool" where
  "map_has m k = (case map_get m k of None \<Rightarrow> False | Some _ \<Rightarrow> True)"

definition validateAvailabilityServices ::
  "Resolvers \<Rightarrow> (string \<times> Service) list \<Rightarrow> error + unit" where
  "validateAvailabilityServices rs svs =
     (if list_all (\<lambda>(k, s). map_has rs (name s) \<or> isSystemResolverName (name s)) svs
      then Inr () else Inl TemplaterError)"

definition provideNames :: "(string \<times> Service) list \<Rightarrow> string list" where
  "provideNames svs =
     concat (map (\<lambda>(k, s). map (\<lambda>d. name s @ ''.'' @ dep_name d) (dependencies s)) svs)"

fun checkProvideNames :: "string list \<Rightarrow> Resolvers \<Rightarrow> error + unit" where
  "checkProvideNames uuids [] = Inr ()"
| "checkProvideNames uuids ((k, rv) # rs) =
     (case argsModel rv of
        None \<Rightarrow> Inl TypeError
      | Some am \<Rightarrow>
          if list_all (\<lambda>arg. (k @ ''.'' @ arg) \<in> set uuids) (map fst am)
          then checkProvideNames uuids rs else Inl TemplaterError)"

definition validateServiceProvideNames ::
  "Resolvers \<Rightarrow> (string \<times> Service) list \<Rightarrow> error + unit" where
  "validateServiceProvideNames rs svs = checkProvideNames (provideNames svs) rs"

definition isReferenceDependency :: "(string \<times> Variable) list \<Rightarrow> Dependency \<Rightarrow> bool" where
  "isReferenceDependency vars d =
     (case map_get vars (variableName d) of Some (VariableRef _ _) \<Rightarrow> True | _ \<Rightarrow> False)"

definition calculateRootServices :: "ResolverContext \<Rightarrow> (string \<times> Service) list" where
  "calculateRootServices ctx =
     filter (\<lambda>(k, s). \<not> list_ex (isReferenceDependency (variables ctx)) (dependencies s))
       (services ctx)"

text \<open>
  \<open>_calculateChildrenServices\<close>. One edge: both maps are looked up before either is
  stored, and the parent's map is mutated in place; when parent and child are the same
  service and its map exists, the map stored for the child is that mutated map.
\<close>

type_synonym ChildrenServices = "(string \<times> (string \<times> Service) list) list"

definition addEdge :: "string \<Rightarrow> string \<Rightarrow> Service \<Rightarrow> ChildrenServices \<Rightarrow> ChildrenServices" where
  "addEdge parentServiceName childServiceName childService ch =
     (let parentMap = (case map_get ch parentServiceName of Some m \<Rightarrow> m | None \<Rightarrow> []);
          parentMap' = map_set childServiceName childService parentMap;
          childMap = (case map_get ch childServiceName of
                        Some m \<Rightarrow> if childServiceName = parentServiceName then parentMap' else m
                      | None \<Rightarrow> [])
      in map_set childServiceName childMap (map_set parentServiceName parentMap' ch))"

fun scanDependencies ::
  "(string \<times> Variable) list \<Rightarrow> string \<Rightarrow> Service \<Rightarrow> Dependency list \<Rightarrow> ChildrenServices
     \<Rightarrow> ChildrenServices" where
  "scanDependencies vars childServiceName childService [] ch = ch"
| "scanDependencies vars childServiceName childService (d # ds) ch =
     scanDependencies vars childServiceName childService ds
       (case map_get vars (variableName d) of
          Some (VariableRef f parentServiceName) \<Rightarrow>
            addEdge parentServiceName childServiceName childService ch
        | _ \<Rightarrow> ch)"

fun scanVariables ::
  "ResolverContext \<Rightarrow> (string \<times> Variable) list \<Rightarrow> ChildrenServices \<Rightarrow> error + ChildrenServices"
  where
  "scanVariables ctx [] ch = Inr ch"
| "scanVariables ctx ((k, VariableConst c) # vs) ch = scanVariables ctx vs ch"
| "scanVariables ctx ((k, VariableRef f childServiceName) # vs) ch =
     (case map_get (services ctx) childServiceName of
        None \<Rightarrow> Inl TypeError
      | Some childService \<Rightarrow>
          scanVariables ctx vs
            (scanDependencies (variables ctx) childServiceName childService
               (dependencies childService) ch))"

definition calculateChildrenServices :: "ResolverContext \<Rightarrow> error + ChildrenServices" where
  "calculateChildrenServices ctx = scanVariables ctx (variables ctx) []"

text \<open>
  \<open>_calculateQueueResolving\<close>: the loop runs until the frontier is empty; on a cyclic
  graph it never ends, so the function is partial (\<open>None\<close>: it does not return).
\<close>

definition nextServices :: "ChildrenServices \<Rightarrow> (string \<times> Service) list \<Rightarrow> (string \<times> Service) list"
  where
  "nextServices ch svs =
     fold (\<lambda>serviceName acc.
             case map_get ch serviceName of
               None \<Rightarrow> acc
             | Some childs \<Rightarrow> fold (\<lambda>(k, s) acc'. map_set k s acc') childs acc)
       (map fst svs) []"

partial_function (option) queueLoop ::
  "ChildrenServices \<Rightarrow> (string \<times> Service) list \<Rightarrow> Service list list \<Rightarrow> Service list list option"
  where
  "queueLoop ch svs queueResolving =
     (if svs = [] then Some queueResolving
      else queueLoop ch (nextServices ch svs) (queueResolving @ [map snd svs]))"

declare queueLoop.simps [code]

definition calculateQueueResolving ::
  "ChildrenServices \<Rightarrow> (string \<times> Service) list \<Rightarrow> Service list list option" where
  "calculateQueueResolving ch rootServices = queueLoop ch rootServices []"

text \<open>
  \<open>groupByField(arr, "name")\<close>: the groups in the order of their first member. A provider
  name starts with a capital letter, so it is never an array index nor a member of
  \<open>Object.prototype\<close>, and the keys of the result object keep the order of insertion.
\<close>

definition groupByField :: "Service list \<Rightarrow> (string \<times> Service list) list" where
  "groupByField arr =
     fold (\<lambda>item result.
             case map_get result (name item) of
               Some g \<Rightarrow> map_set (name item) (g @ [item]) result
             | None \<Rightarrow> map_set (name item) [item] result)
       arr []"

type_synonym FieldModel = "(string \<times> string list) list"

type_synonym ServiceModels = "(string \<times> FieldModel) list"

text \<open>The loop of \<open>buildResolver\<close> over the variables: \<open>variableBase\<close> and \<open>serviceModels\<close>.\<close>

fun buildModels ::
  "(string \<times> Variable) list \<Rightarrow> JsRecord \<times> ServiceModels \<Rightarrow> JsRecord \<times> ServiceModels" where
  "buildModels [] acc = acc"
| "buildModels ((k, VariableConst c) # vs) (variableBase, serviceModels) =
     buildModels vs (variableBase(k \<mapsto> Str c), serviceModels)"
| "buildModels ((k, VariableRef f srv) # vs) (variableBase, serviceModels) =
     (let model = (case map_get serviceModels srv of Some m \<Rightarrow> m | None \<Rightarrow> []);
          tos = (case map_get model f of Some t \<Rightarrow> t | None \<Rightarrow> [])
      in buildModels vs
           (variableBase, map_set srv (map_set f (tos @ [k]) model) serviceModels))"

record QueueResolving =
  queue :: "Service list"
  queueGrouped :: "(string \<times> Service list) list"

record ResolverExecutor =
  ex_resolvers :: Resolvers
  variableBase :: JsRecord
  serviceModels :: ServiceModels
  queueResolving :: "QueueResolving list"
  childrenServices :: ChildrenServices

text \<open>
  \<open>buildResolver\<close>: \<open>None\<close> when the queue loop does not return, \<open>Some (Inl e)\<close> when the
  build throws.
\<close>

definition buildResolver :: "Resolvers \<Rightarrow> ResolverContext \<Rightarrow> (error + ResolverExecutor) option"
  where
  "buildResolver rs ctx =
     (case validateAvailabilityServices rs (services ctx) of
        Inl e \<Rightarrow> Some (Inl e)
      | Inr _ \<Rightarrow>
     (case validateServiceProvideNames rs (services ctx) of
        Inl e \<Rightarrow> Some (Inl e)
      | Inr _ \<Rightarrow>
     (case calculateChildrenServices ctx of
        Inl e \<Rightarrow> Some (Inl e)
      | Inr ch \<Rightarrow>
     (case calculateQueueResolving ch (calculateRootServices ctx) of
        None \<Rightarrow> None
      | Some qs \<Rightarrow>
          (let (vb, sm) = buildModels (variables ctx) (Map.empty, [])
           in Some (Inr \<lparr> ex_resolvers = rs, variableBase = vb, serviceModels = sm,
                           queueResolving =
                             map (\<lambda>q. \<lparr> queue = q, queueGrouped = groupByField q \<rparr>) qs,
                           childrenServices = ch \<rparr>))))))"


section \<open>Leveled executor\<close>

definition isString :: "jsval \<Rightarrow> bool" where
  "isString v = (case v of Str _ \<Rightarrow> True | _ \<Rightarrow> False)"

definition isArrayStrings :: "jsval \<Rightarrow> bool" where
  "isArrayStrings v = (case v of Arr xs \<Rightarrow> list_all isString xs | _ \<Rightarrow> False)"

text \<open>
  The body of the validator's loop for one key: \<open>result\<close> after the
  \<open>if (types.has("string")) ... else if (types.has("string[]")) ...\<close>.
\<close>

definition fieldResult :: "ArgKind list \<Rightarrow> jsval \<Rightarrow> bool" where
  "fieldResult types v =
     (if KString \<in> set types then isString v
      else if KStringArray \<in> set types then isArrayStrings v
      else False)"

definition validator :: "ArgsModel \<Rightarrow> JsRecord \<Rightarrow> error + unit" where
  "validator am record =
     (if list_all (\<lambda>k. fieldResult (case map_get am k of Some t \<Rightarrow> t | None \<Rightarrow> [])
                          (rd record k))
           (map fst am)
      then Inr () else Inl TypingError)"

text \<open>The argument record of one service instance, read from the current value record.\<close>

definition makeArgs :: "JsRecord \<Rightarrow> Service \<Rightarrow> JsRecord" where
  "makeArgs variable s =
     fold (\<lambda>d args. args(dep_name d \<mapsto> rd variable (variableName d)))
       (dependencies s) Map.empty"

text \<open>
  The second half of \<open>_resolve\<close>: the outputs are copied into \<open>updateVarialbes\<close>.
  \<open>result[i]\<close> is \<open>None\<close> when the provider returned fewer records than asked for; reading a
  field of it throws.
\<close>

fun assignTos :: "string list \<Rightarrow> string \<Rightarrow> JsRecord option \<Rightarrow> JsRecord \<Rightarrow> error + JsRecord" where
  "assignTos [] from_key r upd = Inr upd"
| "assignTos (to_key # tos) from_key r upd =
     (case r of
        None \<Rightarrow> Inl TypeError
      | Some rr \<Rightarrow> assignTos tos from_key r (upd(to_key \<mapsto> rd rr from_key)))"

fun assignFields :: "FieldModel \<Rightarrow> JsRecord option \<Rightarrow> JsRecord \<Rightarrow> error + JsRecord" where
  "assignFields [] r upd = Inr upd"
| "assignFields ((from_key, tos) # model) r upd =
     (case assignTos tos from_key r upd of
        Inl e \<Rightarrow> Inl e
      | Inr upd' \<Rightarrow> assignFields model r upd')"

fun assignOutputs ::
  "ServiceModels \<Rightarrow> Service list \<Rightarrow> JsRecord list \<Rightarrow> JsRecord \<Rightarrow> error + JsRecord" where
  "assignOutputs sm [] result upd = Inr upd"
| "assignOutputs sm (s # ss) result upd =
     (case map_get sm (key s) of
        None \<Rightarrow> Inl TypeError
      | Some model \<Rightarrow>
          (case assignFields model (case result of [] \<Rightarrow> None | r # _ \<Rightarrow> Some r) upd of
             Inl e \<Rightarrow> Inl e
           | Inr upd' \<Rightarrow> assignOutputs sm ss (tl result) upd'))"

fun validateAll :: "ArgsModel option \<Rightarrow> JsRecord list \<Rightarrow> error + unit" where
  "validateAll None batch = Inr ()"
| "validateAll (Some am) [] = Inr ()"
| "validateAll (Some am) (a # batch) =
     (case validator am a of Inl e \<Rightarrow> Inl e | Inr _ \<Rightarrow> validateAll (Some am) batch)"

text \<open>
  \<open>_resolve\<close>. The first component is the batch the callback was invoked with, \<open>None\<close>
  when it was not invoked: the resolver is missing, or an argument record failed the
  validation (which runs while the batch is built, before the call).
\<close>

definition resolve ::
  "ResolverValue option \<Rightarrow> ServiceModels \<Rightarrow> Service list \<Rightarrow> JsRecord
     \<Rightarrow> JsRecord list option \<times> (error + JsRecord)" where
  "resolve resolver sm svs variable =
     (case resolver of
        None \<Rightarrow> (None, Inl TypeError)
      | Some r \<Rightarrow>
          (let batch = map (makeArgs variable) svs in
           case validateAll (argsModel r) batch of
             Inl e \<Rightarrow> (None, Inl e)
           | Inr _ \<Rightarrow>
               (case callback r batch of
                  Inl e \<Rightarrow> (Some batch, Inl e)
                | Inr result \<Rightarrow> (Some batch, assignOutputs sm svs result Map.empty))))"

text \<open>
  What one provider group did at one level: the service instances of the batch, the
  batch the callback was invoked with, and how the group's promise settled (the updates
  for the value record, or the error). The sets \<open>currentQueue\<close> and \<open>nextQueue\<close> hold
  service objects of one context, where an object is known by its key; membership is
  equality of the records.
\<close>

record GroupRun =
  run_provider :: string
  run_services :: "Service list"
  run_invoked :: "JsRecord list option"
  run_settled :: "error + JsRecord"

definition runGroup ::
  "ResolverExecutor \<Rightarrow> Service list \<Rightarrow> JsRecord \<Rightarrow> string \<times> Service list \<Rightarrow> GroupRun"
  where
  "runGroup ex currentQueue variable g =
     (let svs = filter (\<lambda>s. s \<in> set currentQueue) (snd g);
          r = resolve (map_get (ex_resolvers ex) (fst g)) (serviceModels ex) svs variable
      in \<lparr> run_provider = fst g, run_services = svs,
            run_invoked = fst r, run_settled = snd r \<rparr>)"

definition isTypingError :: "GroupRun \<Rightarrow> bool" where
  "isTypingError g = (case run_settled g of Inl TypingError \<Rightarrow> True | _ \<Rightarrow> False)"

text \<open>The \<open>catch\<close> branch for an ordinary error: the children of the batch leave \<open>nextQueue\<close>.\<close>

definition deleteChildren :: "ChildrenServices \<Rightarrow> Service list \<Rightarrow> Service list \<Rightarrow> Service list"
  where
  "deleteChildren ch svs nextQueue =
     fold (\<lambda>s nq.
             case map_get ch (key s) of
               None \<Rightarrow> nq
             | Some childServices \<Rightarrow> fold removeAll (map snd childServices) nq)
       svs nextQueue"

text \<open>The \<open>then\<close> and \<open>catch\<close> handlers of one group, on the value record and \<open>nextQueue\<close>.\<close>

definition settle ::
  "ChildrenServices \<Rightarrow> GroupRun \<Rightarrow> JsRecord \<times> Service list \<Rightarrow> JsRecord \<times> Service list" where
  "settle ch g st =
     (case run_settled g of
        Inr result \<Rightarrow> (fst st ++ result, snd st)
      | Inl TypingError \<Rightarrow> st
      | Inl SystemError \<Rightarrow> st
      | Inl _ \<Rightarrow> (fst st, deleteChildren ch (run_services g) (snd st)))"

text \<open>
  The loop of \<open>execute\<close> over the levels. All groups of a level build their batches and
  invoke their callbacks before any of them settles, so every batch reads the value record
  as it was when the level began. A \<open>TypingError\<close> rejects \<open>Promise.all\<close> and ends the
  execution; otherwise the handlers run and the loop goes on unless \<open>nextQueue\<close> is empty.
  A set of services is the list of its members. The result holds, for every level that
  ran, what each of its groups did, and the value record or the error.
\<close>

fun executeLevels ::
  "ResolverExecutor \<Rightarrow> QueueResolving list \<Rightarrow> Service list \<Rightarrow> JsRecord
     \<Rightarrow> GroupRun list list \<times> (error + JsRecord)" where
  "executeLevels ex [] currentQueue variable = ([], Inr variable)"
| "executeLevels ex (lvl # rest) currentQueue variable =
     (let runs = map (runGroup ex currentQueue variable) (queueGrouped lvl);
          st = fold (settle (childrenServices ex)) runs
                 (variable, (case rest of [] \<Rightarrow> [] | nxt # _ \<Rightarrow> queue nxt))
      in if list_ex isTypingError runs then ([runs], Inl TypingError)
         else if snd st = [] then ([runs], Inr (fst st))
         else (let r = executeLevels ex rest (snd st) (fst st)
               in (runs # fst r, snd r)))"

definition execute ::
  "ResolverExecutor \<Rightarrow> JsRecord \<Rightarrow> GroupRun list list \<times> (error + JsRecord)" where
  "execute ex args =
     (case queueResolving ex of
        [] \<Rightarrow> ([], Inr (variableBase ex ++ args))
      | lvl # rest \<Rightarrow> executeLevels ex (lvl # rest) (queue lvl) (variableBase ex ++ args))"


section \<open>Notions of the specification and example inputs\<close>

text \<open>A value matches a declared kind: a string, or an array of strings.\<close>

definition matchesKind :: "ArgKind \<Rightarrow> jsval \<Rightarrow> bool" where
  "matchesKind k v = (case k of KString \<Rightarrow> isString v | KStringArray \<Rightarrow> isArrayStrings v)"

text \<open>A template whose data region holds one service line with a lower-case right-hand side.\<close>

definition template_bad_service :: string where
  "template_bad_service = ''#data\<newline>@x = foo\<newline>#view(title)\<newline>''"

text \<open>A context without reference variables.\<close>

definition noReferences :: "ResolverContext \<Rightarrow> bool" where
  "noReferences ctx =
     list_all (\<lambda>kv. case snd kv of VariableRef _ _ \<Rightarrow> False | VariableConst _ \<Rightarrow> True)
       (variables ctx)"

text \<open>
  A provider \<open>Pp\<close> that wants a string argument \<open>a\<close> and returns it as the field \<open>f\<close>
  of each output record, and a registry that holds it next to the system providers.
\<close>

definition echo_callback :: ResolverCallback where
  "echo_callback batch = Inr (map (\<lambda>a. [''f'' \<mapsto> rd a ''a'']) batch)"

definition pp_resolvers :: Resolvers where
  "pp_resolvers =
     map_set ''Pp'' \<lparr> argsModel = Some [(''a'', [KString])], callback = echo_callback \<rparr>
       createResolver"

text \<open>\<open>$v = 'c'\<close>, \<open>@x = Pp { a = $v; }\<close>, \<open>@y = Pp { a = $v; }\<close>\<close>

definition two_roots_context :: ResolverContext where
  "two_roots_context =
     registService ''y'' ''Pp'' [\<lparr> dep_key = ''a'', dep_name = ''a'', variableName = ''v'' \<rparr>]
       (registService ''x'' ''Pp'' [\<lparr> dep_key = ''a'', dep_name = ''a'', variableName = ''v'' \<rparr>]
          (registVariable ''v'' (VariableConst ''c'') newResolverContext))"

text \<open>The alias example of the specification as a template.\<close>

definition template_alias :: string where
  "template_alias = ''#data\<newline>$a = 'x'\<newline>$b = $a\<newline>#view(title)\<newline>{{b}}''"

text \<open>
  The two halves of a group's handlers: what the group does to the value record, and what
  it does to \<open>nextQueue\<close>.
\<close>

definition applyRun :: "GroupRun \<Rightarrow> JsRecord \<Rightarrow> JsRecord" where
  "applyRun g variable = fst (settle [] g (variable, []))"

definition pruneRun :: "ChildrenServices \<Rightarrow> GroupRun \<Rightarrow> Service list \<Rightarrow> Service list" where
  "pruneRun ch g nextQueue = snd (settle ch g (Map.empty, nextQueue))"



text \<open>
  One round of the loop of \<open>execute\<close>: the runs of the level, the value record after
  their handlers, and \<open>nextQueue\<close> after their handlers.
\<close>

definition levelRuns ::
  "ResolverExecutor \<Rightarrow> QueueResolving \<Rightarrow> Service list \<Rightarrow> JsRecord \<Rightarrow> GroupRun list" where
  "levelRuns ex lvl cur v = map (runGroup ex cur v) (queueGrouped lvl)"

definition nextRecord ::
  "ResolverExecutor \<Rightarrow> QueueResolving \<Rightarrow> Service list \<Rightarrow> JsRecord \<Rightarrow> JsRecord" where
  "nextRecord ex lvl cur v = fold applyRun (levelRuns ex lvl cur v) v"

definition nextCandidates ::
  "ResolverExecutor \<Rightarrow> QueueResolving \<Rightarrow> QueueResolving list \<Rightarrow> Service list \<Rightarrow> JsRecord
     \<Rightarrow> Service list" where
  "nextCandidates ex lvl rest cur v =
     fold (pruneRun (childrenServices ex)) (levelRuns ex lvl cur v)
       (case rest of [] \<Rightarrow> [] | nxt # _ \<Rightarrow> queue nxt)"

text \<open>
  For a trace \<open>T\<close> of an execution (the runs of each level that ran): the value record
  when level \<open>j\<close> begins, and the candidate set (\<open>currentQueue\<close>) of level \<open>j\<close>, which is
  the queue of the level without what the handlers of level \<open>j - 1\<close> deleted.
\<close>

definition recordFrom :: "JsRecord \<Rightarrow> GroupRun list list \<Rightarrow> nat \<Rightarrow> JsRecord" where
  "recordFrom v T j = fold applyRun (concat (take j T)) v"

definition candidatesFrom ::
  "ChildrenServices \<Rightarrow> QueueResolving list \<Rightarrow> Service list \<Rightarrow> GroupRun list list \<Rightarrow> nat
     \<Rightarrow> Service list" where
  "candidatesFrom ch lvls cur T j =
     (if j = 0 then cur else fold (pruneRun ch) (T ! (j - 1)) (queue (lvls ! j)))"

definition recordAt :: "ResolverExecutor \<Rightarrow> JsRecord \<Rightarrow> GroupRun list list \<Rightarrow> nat \<Rightarrow> JsRecord" where
  "recordAt ex args T j = recordFrom (variableBase ex ++ args) T j"

definition candidatesAt :: "ResolverExecutor \<Rightarrow> GroupRun list list \<Rightarrow> nat \<Rightarrow> Service list" where
  "candidatesAt ex T j =
     candidatesFrom (childrenServices ex) (queueResolving ex) (queue (queueResolving ex ! 0)) T j"

text \<open>Further predicates on how a group settled.\<close>

definition isSystemError :: "GroupRun \<Rightarrow> bool" where
  "isSystemError g = (case run_settled g of Inl SystemError \<Rightarrow> True | _ \<Rightarrow> False)"



definition wasInvoked :: "GroupRun \<Rightarrow> bool" where
  "wasInvoked g = (case run_invoked g of Some _ \<Rightarrow> True | None \<Rightarrow> False)"

text \<open>
  Example inputs are written as lists of declarations, registered in order as the parser
  does, and built into an executor (the empty executor stands in when the build fails).
\<close>

datatype Declaration =
    DeclVariable string Variable
  | DeclService string string "(string \<times> string) list"

fun declare_one :: "Declaration \<Rightarrow> ResolverContext \<Rightarrow> ResolverContext" where
  "declare_one (DeclVariable k v) ctx = registVariable k v ctx"
| "declare_one (DeclService k p deps) ctx =
     registService k p
       (map (\<lambda>(a, v). \<lparr> dep_key = a, dep_name = a, variableName = v \<rparr>) deps) ctx"

definition declared :: "Declaration list \<Rightarrow> ResolverContext" where
  "declared ds = fold declare_one ds newResolverContext"

definition built :: "Resolvers \<Rightarrow> ResolverContext \<Rightarrow> ResolverExecutor" where
  "built rs ctx =
     (case buildResolver rs ctx of
        Some (Inr ex) \<Rightarrow> ex
      | _ \<Rightarrow> \<lparr> ex_resolvers = rs, variableBase = Map.empty, serviceModels = [],
               queueResolving = [], childrenServices = [] \<rparr>)"

definition builds :: "Resolvers \<Rightarrow> ResolverContext \<Rightarrow> bool" where
  "builds rs ctx = (case buildResolver rs ctx of Some (Inr _) \<Rightarrow> True | _ \<Rightarrow> False)"

text \<open>
  Providers for the examples: \<open>Good\<close> and \<open>Last\<close> return the field \<open>out\<close>, \<open>Fail\<close>
  throws an ordinary error, \<open>Typed\<close> wants an array of strings as \<open>x\<close>, \<open>Bb\<close> returns
  \<open>out\<close> and records nothing else.
\<close>

definition good_callback :: ResolverCallback where
  "good_callback batch = Inr (map (\<lambda>_. [''out'' \<mapsto> Str ''S'']) batch)"

definition fail_callback :: ResolverCallback where
  "fail_callback batch = Inl OtherError"

definition plain_resolvers :: Resolvers where
  "plain_resolvers =
     createResolver @
     [(''Good'', \<lparr> argsModel = Some [], callback = good_callback \<rparr>),
      (''Last'', \<lparr> argsModel = Some [], callback = good_callback \<rparr>),
      (''Bb'', \<lparr> argsModel = Some [], callback = good_callback \<rparr>),
      (''Fail'', \<lparr> argsModel = Some [], callback = fail_callback \<rparr>)]"

definition typed_resolvers :: Resolvers where
  "typed_resolvers =
     plain_resolvers @
     [(''Typed'', \<lparr> argsModel = Some [(''x'', [KStringArray])], callback = good_callback \<rparr>)]"

definition echo_resolvers :: Resolvers where
  "echo_resolvers =
     plain_resolvers @
     [(''Pp'', \<lparr> argsModel = Some [(''a'', [KString])], callback = echo_callback \<rparr>)]"

text \<open>
  A root \<open>a\<close> resolved by \<open>Good\<close>, its child \<open>b\<close> whose provider \<open>Typed\<close> rejects the
  string it gets, and \<open>b\<close>'s child \<open>d\<close>.
\<close>

definition typing_context :: ResolverContext where
  "typing_context = declared
     [DeclVariable ''k'' (VariableConst ''k''),
      DeclService ''a'' ''Good'' [(''x'', ''k'')],
      DeclVariable ''pa'' (VariableRef ''out'' ''a''),
      DeclService ''b'' ''Typed'' [(''x'', ''pa'')],
      DeclVariable ''pb'' (VariableRef ''out'' ''b''),
      DeclService ''d'' ''Last'' [(''x'', ''pb'')],
      DeclVariable ''pd'' (VariableRef ''out'' ''d'')]"

text \<open>
  The shape of the repository's own example: a root, the reserved provider \<open>Arguments\<close>
  fed by it, and a service instance fed by a variable of \<open>Arguments\<close>.
\<close>

definition arguments_context :: ResolverContext where
  "arguments_context = declared
     [DeclVariable ''hello'' (VariableConst ''hello''),
      DeclService ''uno'' ''Good'' [(''x'', ''hello'')],
      DeclVariable ''s'' (VariableRef ''out'' ''uno''),
      DeclService ''arguments'' ''Arguments'' [(''s'', ''s'')],
      DeclVariable ''user_name'' (VariableRef ''name'' ''arguments''),
      DeclService ''left'' ''Pp'' [(''a'', ''user_name'')],
      DeclVariable ''left'' (VariableRef ''f'' ''left'')]"

text \<open>
  Two roots: \<open>a\<close>, whose provider fails, and \<open>s\<close>. \<open>b\<close> is the child of \<open>a\<close> and \<open>c\<close>
  the child of \<open>s\<close>; \<open>d\<close> is the child of \<open>b\<close> and \<open>e\<close> the child of \<open>c\<close>.
\<close>

definition failing_context :: ResolverContext where
  "failing_context = declared
     [DeclVariable ''k'' (VariableConst ''k''),
      DeclService ''a'' ''Fail'' [(''x'', ''k'')],
      DeclService ''s'' ''Good'' [(''x'', ''k'')],
      DeclVariable ''pa'' (VariableRef ''out'' ''a''),
      DeclVariable ''ps'' (VariableRef ''out'' ''s''),
      DeclService ''b'' ''Bb'' [(''x'', ''pa'')],
      DeclService ''c'' ''Good'' [(''x'', ''ps'')],
      DeclVariable ''pb'' (VariableRef ''out'' ''b''),
      DeclVariable ''pc'' (VariableRef ''out'' ''c''),
      DeclService ''d'' ''Last'' [(''x'', ''pb'')],
      DeclService ''e'' ''Last'' [(''x'', ''pc'')],
      DeclVariable ''pd'' (VariableRef ''out'' ''d''),
      DeclVariable ''pe'' (VariableRef ''out'' ''e'')]"

text \<open>A chain: the root \<open>a\<close>, whose provider fails, and its only child \<open>b\<close>.\<close>

definition chain_context :: ResolverContext where
  "chain_context = declared
     [DeclVariable ''k'' (VariableConst ''k''),
      DeclService ''a'' ''Fail'' [(''x'', ''k'')],
      DeclVariable ''pa'' (VariableRef ''out'' ''a''),
      DeclService ''b'' ''Bb'' [(''x'', ''pa'')],
      DeclVariable ''pb'' (VariableRef ''out'' ''b'')]"

text \<open>The executions of the examples.\<close>

definition typing_trace :: "GroupRun list list" where
  "typing_trace = fst (execute (built typed_resolvers typing_context) Map.empty)"

definition arguments_overrides :: JsRecord where
  "arguments_overrides = [''user_name'' \<mapsto> Str ''Bob'', ''s'' \<mapsto> Str ''OVR'']"

definition arguments_trace :: "GroupRun list list" where
  "arguments_trace = fst (execute (built echo_resolvers arguments_context) arguments_overrides)"

definition failing_trace :: "GroupRun list list" where
  "failing_trace = fst (execute (built plain_resolvers failing_context) Map.empty)"

definition chain_trace :: "GroupRun list list" where
  "chain_trace = fst (execute (built plain_resolvers chain_context) Map.empty)"

text \<open>What a trace shows of each run: the provider and the keys of the batch.\<close>

definition batches :: "GroupRun list list \<Rightarrow> (string \<times> string list) list list" where
  "batches T = map (map (\<lambda>g. (run_provider g, map key (run_services g)))) T"

text \<open>The entries of a returned value record at the given names (\<open>None\<close>: the call failed).\<close>

definition entries :: "error + JsRecord \<Rightarrow> string list \<Rightarrow> jsval option list option" where
  "entries r ks = (case r of Inl _ \<Rightarrow> None | Inr v \<Rightarrow> Some (map v ks))"

text \<open>One step of \<open>groupByField\<close>, and the variable names a service model writes.\<close>

definition groupStep ::
  "Service \<Rightarrow> (string \<times> Service list) list \<Rightarrow> (string \<times> Service list) list" where
  "groupStep item result =
     (case map_get result (name item) of
        Some g \<Rightarrow> map_set (name item) (g @ [item]) result
      | None \<Rightarrow> map_set (name item) [item] result)"









section \<open>Properties of the executor's validation and of the parser\<close>

text \<open>
  C2 (the code departs from the claim). The claim: the validator raises a
  \<open>TypingError\<close> exactly when some declared argument's value matches none of its declared
  kinds, so a value matching any one kind of a multi-kind set passes. The code tests
  \<open>string[]\<close> only in the \<open>else\<close> branch of the test for \<open>string\<close>: for the model
  \<open>{ a: ['string', 'string[]'] }\<close> the array of strings \<open>['x']\<close> matches the declared kind
  \<open>string[]\<close> and is rejected all the same, by the validator and by \<open>_resolve\<close>, which then
  does not invoke the callback.
\<close>

theorem c2_multi_kind_array_rejected:
  "matchesKind KStringArray (Arr [Str ''x''])
   \<and> validator [(''a'', [KString, KStringArray])] [''a'' \<mapsto> Arr [Str ''x'']] = Inl TypingError
   \<and> resolve (Some \<lparr> argsModel = Some [(''a'', [KString, KStringArray])],
                      callback = (\<lambda>batch. Inr (map (\<lambda>_. Map.empty) batch)) \<rparr>)
        [(''s'', [(''out'', [''v''])])]
        [\<lparr> key = ''s'', name = ''Pp'',
            dependencies = [\<lparr> dep_key = ''a'', dep_name = ''a'', variableName = ''w'' \<rparr>] \<rparr>]
        [''w'' \<mapsto> Arr [Str ''x'']]
      = (None, Inl TypingError)"
  by (simp add: matchesKind_def isArrayStrings_def isString_def validator_def fieldResult_def
      rd_def resolve_def makeArgs_def)

text \<open>
  C3 (the code departs from the claim). The claim: a service line whose right-hand side
  is not a provider name with an optional brace list makes \<open>parse\<close> fail. The code has no
  branch for a right-hand side that \<open>REGEXP_SERVICE\<close> does not match: the line
  \<open>@x = foo\<close> is dropped, and \<open>parse\<close> returns a context without any service.
\<close>

theorem c3_bad_service_line_ignored:
  "parse template_bad_service =
     Inr ([(''title'', \<lparr> view_name = ''title'', view_render = ''default'', view_text = [] \<rparr>)],
          newResolverContext)"
  unfolding template_bad_service_def by code_simp


subsection \<open>Alias declarations\<close>

lemma matches_Zero: "matches Zero cs = False"
  by (induction cs) auto

lemma matches_star_atom: "matches (Star (Atom p)) cs = list_all p cs"
  by (induction cs) (auto simp: matches_Zero)

lemma matches_ident:
  "matches ident cs = (cs \<noteq> [] \<and> is_lower (hd cs) \<and> list_all is_lower_us (tl cs))"
  by (cases cs) (auto simp: ident_def matches_Zero matches_star_atom)

lemma matches_identifier_dollar:
  "matches REGEXP_IDENTIFIER (CHR ''$'' # a) = matches ident a"
  by (simp add: REGEXP_IDENTIFIER_def ident_def)

lemma lower_us_plain:
  "is_lower_us c \<Longrightarrow> c \<noteq> CHR ''='' \<and> \<not> is_space c \<and> c \<noteq> CHR ''$''"
  by (auto simp: is_lower_us_def is_lower_def is_space_def)

lemma ident_chars: "matches ident a \<Longrightarrow> a \<noteq> [] \<and> list_all is_lower_us a"
  by (cases a) (auto simp: matches_ident is_lower_us_def simp del: matches.simps)

lemma split_on_notin: "d \<notin> set xs \<Longrightarrow> split_on d xs = [xs]"
  by (induction xs) auto

lemma split_on_app: "d \<notin> set xs \<Longrightarrow> split_on d (xs @ d # ys) = xs # split_on d ys"
  by (induction xs) auto

lemma trim_pad:
  assumes "s \<noteq> []" "\<not> is_space (hd s)" "\<not> is_space (last s)"
  shows "trim (replicate m (CHR '' '') @ s @ replicate n (CHR '' '')) = s"
proof -
  have sp: "is_space (CHR '' '')" by (simp add: is_space_def)
  have front: "dropWhile is_space (replicate m (CHR '' '') @ s @ replicate n (CHR '' ''))
      = s @ replicate n (CHR '' '')"
    using assms sp by (cases s) (auto simp: dropWhile_append)
  have rear: "dropWhile is_space (rev (s @ replicate n (CHR '' ''))) = rev s"
    using assms sp by (cases s rule: rev_cases) (auto simp: dropWhile_append)
  show ?thesis unfolding trim_def front rear by simp
qed

lemma dollar_not_literal: "\<not> matches REGEXP_STRING_LITERAL (CHR ''$'' # b)"
  by (simp add: REGEXP_STRING_LITERAL_def chr_def matches_Zero)

lemma dollar_not_variable: "\<not> matches REGEXP_VARIABLE (CHR ''$'' # b)"
  by (simp add: REGEXP_VARIABLE_def ident_def is_lower_def matches_Zero)

text \<open>
  C9. An alias line \<open>$a = $b\<close> (any number of spaces around \<open>=\<close>), with \<open>$a\<close> and \<open>$b\<close>
  identifiers as the parser accepts them and \<open>a\<close> outside the reserved namespace: when
  \<open>b\<close> is defined, the line stores \<open>b\<close>'s current descriptor under \<open>a\<close>; when \<open>b\<close> is not
  defined, the line fails with a \<open>TemplaterError\<close>.
\<close>

theorem c9_alias_copies_descriptor:
  assumes a: "matches REGEXP_IDENTIFIER (CHR ''$'' # a)"
    and na: "\<not> matches REGEXP_INTERNAL_IDENTIFIER (CHR ''$'' # a)"
    and b: "matches REGEXP_IDENTIFIER (CHR ''$'' # b)"
  shows "parseDataLine
           (CHR ''$'' # a @ replicate m (CHR '' '') @ CHR ''='' # replicate n (CHR '' '')
              @ CHR ''$'' # b) ctx =
         (case map_get (variables ctx) b of
            Some d \<Rightarrow> Inr (registVariable a d ctx)
          | None \<Rightarrow> Inl TemplaterError)"
proof -
  from a have ia: "a \<noteq> []" "list_all is_lower_us a"
    using ident_chars matches_identifier_dollar by auto
  from b have ib: "b \<noteq> []" "list_all is_lower_us b"
    using ident_chars matches_identifier_dollar by auto
  have sp: "\<not> is_space (CHR ''$'')" by (simp add: is_space_def)
  have la: "\<not> is_space (last (CHR ''$'' # a))"
    using ia lower_us_plain by (auto simp: list_all_iff)
  have lb: "\<not> is_space (last (CHR ''$'' # b))"
    using ib lower_us_plain by (auto simp: list_all_iff)
  have eqa: "CHR ''='' \<notin> set (CHR ''$'' # a @ replicate m (CHR '' ''))"
    using ia lower_us_plain by (auto simp: list_all_iff)
  have eqb: "CHR ''='' \<notin> set (replicate n (CHR '' '') @ CHR ''$'' # b)"
    using ib lower_us_plain by (auto simp: list_all_iff)
  have parts: "split_on (CHR ''='')
      (CHR ''$'' # a @ replicate m (CHR '' '') @ CHR ''='' # replicate n (CHR '' '') @ CHR ''$'' # b)
      = [CHR ''$'' # a @ replicate m (CHR '' ''), replicate n (CHR '' '') @ CHR ''$'' # b]"
    using split_on_app[OF eqa, of "replicate n (CHR '' '') @ CHR ''$'' # b"] split_on_notin[OF eqb]
    by simp
  have t1: "trim (CHR ''$'' # a @ replicate m (CHR '' '')) = CHR ''$'' # a"
    using trim_pad[of "CHR ''$'' # a" 0 m] sp la by simp
  have t2: "trim (replicate n (CHR '' '') @ CHR ''$'' # b) = CHR ''$'' # b"
    using trim_pad[of "CHR ''$'' # b" n 0] sp lb by simp
  have t3: "trim (CHR ''$'' # b) = CHR ''$'' # b"
    using trim_pad[of "CHR ''$'' # b" 0 0] sp lb by simp
  have var: "parseDataVariableLine a (CHR ''$'' # b) ctx =
     (case map_get (variables ctx) b of
        Some d \<Rightarrow> Inr (registVariable a d ctx)
      | None \<Rightarrow> Inl TemplaterError)"
    by (simp add: parseDataVariableLine_def dollar_not_literal exec_variable_def
        dollar_not_variable t3 slice1_def del: matches.simps)
  show ?thesis
    unfolding parseDataLine_def parts
    using a na
    by (simp add: t1 t2 var startsWith_def SERVICE_CHAR_def slice1_def del: matches.simps)
qed

text \<open>
  The example of the specification: after \<open>$a = 'x'\<close> the line \<open>$b = $a\<close> copies the
  constant, in an empty context it fails, and the template as a whole resolves \<open>b\<close> to
  the string \<open>x\<close>.
\<close>

theorem c9_alias_witness:
  "matches REGEXP_IDENTIFIER ''$b''
   \<and> \<not> matches REGEXP_INTERNAL_IDENTIFIER ''$b''
   \<and> matches REGEXP_IDENTIFIER ''$a''
   \<and> parseDataLine ''$b = $a'' (registVariable ''a'' (VariableConst ''x'') newResolverContext)
       = Inr (registVariable ''b'' (VariableConst ''x'')
                (registVariable ''a'' (VariableConst ''x'') newResolverContext))
   \<and> parseDataLine ''$b = $a'' newResolverContext = Inl TemplaterError
   \<and> (case parse template_alias of
         Inr (_, ctx) \<Rightarrow>
           (case buildResolver createResolver ctx of
              Some (Inr ex) \<Rightarrow>
                (case snd (execute ex Map.empty) of
                   Inr r \<Rightarrow> r ''b'' = Some (Str ''x'')
                 | Inl _ \<Rightarrow> False)
            | _ \<Rightarrow> False)
       | Inl _ \<Rightarrow> False)"
proof -
  have h1: "matches REGEXP_IDENTIFIER ''$b''" by code_simp
  have h2: "\<not> matches REGEXP_INTERNAL_IDENTIFIER ''$b''" by code_simp
  have h3: "matches REGEXP_IDENTIFIER ''$a''" by code_simp
  have defined: "parseDataLine ''$b = $a''
       (registVariable ''a'' (VariableConst ''x'') newResolverContext)
       = Inr (registVariable ''b'' (VariableConst ''x'')
                (registVariable ''a'' (VariableConst ''x'') newResolverContext))"
    using c9_alias_copies_descriptor[OF h1 h2 h3, of 1 1
        "registVariable ''a'' (VariableConst ''x'') newResolverContext"]
    by (simp add: registVariable_def newResolverContext_def)
  have undefined_target: "parseDataLine ''$b = $a'' newResolverContext = Inl TemplaterError"
    using c9_alias_copies_descriptor[OF h1 h2 h3, of 1 1 newResolverContext]
    by (simp add: newResolverContext_def)
  have whole: "(case parse template_alias of
         Inr (_, ctx) \<Rightarrow>
           (case buildResolver createResolver ctx of
              Some (Inr ex) \<Rightarrow>
                (case snd (execute ex Map.empty) of
                   Inr r \<Rightarrow> r ''b'' = Some (Str ''x'')
                 | Inl _ \<Rightarrow> False)
            | _ \<Rightarrow> False)
       | Inl _ \<Rightarrow> False)"
    unfolding template_alias_def by code_simp
  show ?thesis by (intro conjI h1 h2 h3 defined undefined_target whole)
qed

subsection \<open>Plans of contexts without references\<close>

lemma map_get_mem: "map_get m k = Some v \<Longrightarrow> (k, v) \<in> set m"
  by (induction m) (auto split: if_splits)

lemma noref_dependency:
  assumes "noReferences ctx"
  shows "\<not> isReferenceDependency (variables ctx) d"
proof -
  have "\<And>k v. map_get (variables ctx) k = Some v
      \<Longrightarrow> (case v of VariableRef _ _ \<Rightarrow> False | VariableConst _ \<Rightarrow> True)"
    using assms map_get_mem unfolding noReferences_def list_all_iff by fastforce
  then show ?thesis
    unfolding isReferenceDependency_def by (fastforce split: option.splits Variable.splits)
qed

lemma noref_roots:
  assumes "noReferences ctx"
  shows "calculateRootServices ctx = services ctx"
  unfolding calculateRootServices_def
  by (rule filter_True) (auto simp: list_ex_iff noref_dependency[OF assms])

lemma scan_consts:
  "list_all (\<lambda>kv. case snd kv of VariableRef _ _ \<Rightarrow> False | VariableConst _ \<Rightarrow> True) vs
   \<Longrightarrow> scanVariables ctx vs ch = Inr ch"
  by (induction ctx vs ch rule: scanVariables.induct) auto

lemma noref_children:
  assumes "noReferences ctx"
  shows "calculateChildrenServices ctx = Inr []"
  using assms unfolding calculateChildrenServices_def noReferences_def by (rule scan_consts)

lemma nextServices_no_children: "nextServices [] svs = []"
proof -
  have "fold (\<lambda>serviceName acc.
           case map_get ([] :: ChildrenServices) serviceName of
             None \<Rightarrow> acc
           | Some childs \<Rightarrow> fold (\<lambda>(k, s) acc'. map_set k s acc') childs acc) ks acc = acc"
    for ks acc
    by (induction ks) auto
  then show ?thesis unfolding nextServices_def by simp
qed

lemma queue_no_children:
  "calculateQueueResolving [] svs = Some (if svs = [] then [] else [map snd svs])"
  unfolding calculateQueueResolving_def
  by (subst queueLoop.simps, simp add: nextServices_no_children, subst queueLoop.simps, simp)

text \<open>
  C8, as amended. For a context without reference variables that passes the two
  validations of the build, the build returns a plan; the plan has exactly one level, which
  holds every service instance in the order of declaration, when the context declares a
  service instance, and no level at all when it declares none.
\<close>

theorem c8_plan_without_references:
  assumes "noReferences ctx"
    and "validateAvailabilityServices rs (services ctx) = Inr ()"
    and "validateServiceProvideNames rs (services ctx) = Inr ()"
  shows "\<exists>ex. buildResolver rs ctx = Some (Inr ex)
          \<and> map queue (queueResolving ex) =
              (if services ctx = [] then [] else [map snd (services ctx)])"
  using assms(2,3)
  by (simp add: buildResolver_def noref_children[OF assms(1)] noref_roots[OF assms(1)]
      queue_no_children split: prod.splits)

theorem c8_plan_witness:
  "noReferences two_roots_context
   \<and> validateAvailabilityServices pp_resolvers (services two_roots_context) = Inr ()
   \<and> validateServiceProvideNames pp_resolvers (services two_roots_context) = Inr ()
   \<and> (\<exists>ex. buildResolver pp_resolvers two_roots_context = Some (Inr ex)
          \<and> map (map key \<circ> queue) (queueResolving ex) = [[''x'', ''y'']])"
proof -
  have h1: "noReferences two_roots_context" by code_simp
  have h2: "validateAvailabilityServices pp_resolvers (services two_roots_context) = Inr ()"
    by code_simp
  have h3: "validateServiceProvideNames pp_resolvers (services two_roots_context) = Inr ()"
    by code_simp
  have sv: "map key (map snd (services two_roots_context)) = [''x'', ''y'']"
    "services two_roots_context \<noteq> []"
    by (simp_all add: two_roots_context_def registService_def registVariable_def
        newResolverContext_def)
  from c8_plan_without_references[OF h1 h2 h3] obtain ex
    where ex: "buildResolver pp_resolvers two_roots_context = Some (Inr ex)"
      "map queue (queueResolving ex) = [map snd (services two_roots_context)]"
    using sv(2) by auto
  have "map (map key \<circ> queue) (queueResolving ex) = map (map key) (map queue (queueResolving ex))"
    by simp
  then have "map (map key \<circ> queue) (queueResolving ex) = [[''x'', ''y'']]"
    using ex(2) sv(1) by simp
  then have "\<exists>ex. buildResolver pp_resolvers two_roots_context = Some (Inr ex)
      \<and> map (map key \<circ> queue) (queueResolving ex) = [[''x'', ''y'']]"
    using ex(1) by (intro exI[of _ ex] conjI)
  then show ?thesis by (intro conjI h1 h2 h3)
qed

text \<open>
  The claim as stated fails for a context that declares no service instance: the plan of
  \<open>$a = 'x'\<close> alone has no level.
\<close>

theorem c8_no_service_counterexample:
  "noReferences (registVariable ''a'' (VariableConst ''x'') newResolverContext)
   \<and> map_option (map_sum id (length \<circ> queueResolving))
        (buildResolver createResolver
           (registVariable ''a'' (VariableConst ''x'') newResolverContext)) = Some (Inr 0)"
  by code_simp


section \<open>Properties of the executor\<close>

subsection \<open>The loop over the levels\<close>

lemma settle_split: "settle ch g st = (applyRun g (fst st), pruneRun ch g (snd st))"
  by (cases st) (auto simp: settle_def applyRun_def pruneRun_def split: sum.splits error.splits)

lemma fold_settle:
  "fold (settle ch) runs (v, nq) = (fold applyRun runs v, fold (pruneRun ch) runs nq)"
  by (induction runs arbitrary: v nq) (auto simp: settle_split)

lemma exec_Cons:
  "executeLevels ex (lvl # rest) cur v =
     (if list_ex isTypingError (levelRuns ex lvl cur v)
      then ([levelRuns ex lvl cur v], Inl TypingError)
      else if nextCandidates ex lvl rest cur v = []
      then ([levelRuns ex lvl cur v], Inr (nextRecord ex lvl cur v))
      else (levelRuns ex lvl cur v
              # fst (executeLevels ex rest (nextCandidates ex lvl rest cur v) (nextRecord ex lvl cur v)),
            snd (executeLevels ex rest (nextCandidates ex lvl rest cur v) (nextRecord ex lvl cur v))))"
  by (simp add: Let_def fold_settle levelRuns_def nextRecord_def nextCandidates_def)

declare executeLevels.simps(2) [simp del]

lemma exec_length: "length (fst (executeLevels ex lvls cur v)) \<le> length lvls"
  by (induction lvls arbitrary: cur v) (auto simp: exec_Cons)

lemma exec_nonempty: "lvls \<noteq> [] \<Longrightarrow> fst (executeLevels ex lvls cur v) \<noteq> []"
  by (cases lvls) (auto simp: exec_Cons)

lemma exec_level:
  "j < length (fst (executeLevels ex lvls cur v)) \<Longrightarrow>
   fst (executeLevels ex lvls cur v) ! j =
     map (runGroup ex (candidatesFrom (childrenServices ex) lvls cur (fst (executeLevels ex lvls cur v)) j)
            (recordFrom v (fst (executeLevels ex lvls cur v)) j))
       (queueGrouped (lvls ! j))"
proof (induction lvls arbitrary: cur v j)
  case Nil
  then show ?case by simp
next
  case (Cons lvl rest)
  let ?runs = "levelRuns ex lvl cur v"
  let ?v = "nextRecord ex lvl cur v"
  let ?cur = "nextCandidates ex lvl rest cur v"
  let ?T' = "fst (executeLevels ex rest ?cur ?v)"
  show ?case
  proof (cases j)
    case 0
    then show ?thesis
      by (auto simp: exec_Cons candidatesFrom_def recordFrom_def levelRuns_def
         )
  next
    case (Suc j')
    from Cons.prems Suc have T: "fst (executeLevels ex (lvl # rest) cur v) = ?runs # ?T'"
      and j': "j' < length ?T'"
      by (auto simp: exec_Cons split: if_splits)
    have rest: "rest \<noteq> []" using j' exec_length[of ex rest ?cur ?v] by auto
    have c: "candidatesFrom (childrenServices ex) (lvl # rest) cur (?runs # ?T') (Suc j')
        = candidatesFrom (childrenServices ex) rest ?cur ?T' j'"
      using rest by (cases rest; cases j') (auto simp: candidatesFrom_def nextCandidates_def)
    have r: "recordFrom v (?runs # ?T') (Suc j') = recordFrom ?v ?T' j'"
      by (simp add: recordFrom_def nextRecord_def)
    show ?thesis
      unfolding T Suc c r using Cons.IH[OF j'] by simp
  qed
qed


lemma exec_error:
  "snd (executeLevels ex lvls cur v) = Inl e \<Longrightarrow>
   e = TypingError \<and> fst (executeLevels ex lvls cur v) \<noteq> []
   \<and> list_ex isTypingError (last (fst (executeLevels ex lvls cur v)))"
proof (induction lvls arbitrary: cur v)
  case Nil
  then show ?case by simp
next
  case (Cons lvl rest)
  then show ?case
    by (auto simp: exec_Cons split: if_splits)
qed

lemma exec_typing_last:
  "j < length (fst (executeLevels ex lvls cur v)) \<Longrightarrow>
   list_ex isTypingError (fst (executeLevels ex lvls cur v) ! j) \<Longrightarrow>
   length (fst (executeLevels ex lvls cur v)) = Suc j
   \<and> snd (executeLevels ex lvls cur v) = Inl TypingError"
proof (induction lvls arbitrary: cur v j)
  case Nil
  then show ?case by simp
next
  case (Cons lvl rest)
  show ?case
  proof (cases j)
    case 0
    with Cons.prems show ?thesis
      by (auto simp: exec_Cons split: if_splits)
  next
    case (Suc j')
    with Cons.prems Cons.IH[of j'] show ?thesis
      by (auto simp: exec_Cons split: if_splits)
  qed
qed

lemma exec_progress:
  "j < length (fst (executeLevels ex lvls cur v)) \<Longrightarrow> Suc j < length lvls \<Longrightarrow>
   \<not> list_ex isTypingError (fst (executeLevels ex lvls cur v) ! j) \<Longrightarrow>
   candidatesFrom (childrenServices ex) lvls cur (fst (executeLevels ex lvls cur v)) (Suc j) \<noteq> [] \<Longrightarrow>
   Suc j < length (fst (executeLevels ex lvls cur v))"
proof (induction lvls arbitrary: cur v j)
  case Nil
  then show ?case by simp
next
  case (Cons lvl rest)
  let ?runs = "levelRuns ex lvl cur v"
  let ?v = "nextRecord ex lvl cur v"
  let ?cur = "nextCandidates ex lvl rest cur v"
  let ?T' = "fst (executeLevels ex rest ?cur ?v)"
  from Cons.prems(2) have rest: "rest \<noteq> []" by auto
  show ?case
  proof (cases j)
    case 0
    have T0: "fst (executeLevels ex (lvl # rest) cur v) ! 0 = ?runs"
      by (auto simp: exec_Cons)
    with Cons.prems(3) 0 have nt: "\<not> list_ex isTypingError ?runs" by simp
    have "candidatesFrom (childrenServices ex) (lvl # rest) cur
            (fst (executeLevels ex (lvl # rest) cur v)) (Suc 0)
          = fold (pruneRun (childrenServices ex)) ?runs (queue (rest ! 0))"
      by (simp add: candidatesFrom_def T0)
    also have "\<dots> = ?cur"
      using rest by (cases rest) (auto simp: nextCandidates_def)
    finally have "?cur \<noteq> []" using Cons.prems(4) 0 by simp
    then have "fst (executeLevels ex (lvl # rest) cur v) = ?runs # ?T'"
      using nt by (auto simp: exec_Cons)
    then show ?thesis using 0 exec_nonempty[OF rest, of ex ?cur ?v] by (cases ?T') auto
  next
    case (Suc j')
    from Cons.prems(1) Suc have T: "fst (executeLevels ex (lvl # rest) cur v) = ?runs # ?T'"
      and j': "j' < length ?T'"
      by (auto simp: exec_Cons split: if_splits)
    have c: "candidatesFrom (childrenServices ex) (lvl # rest) cur (?runs # ?T') (Suc (Suc j'))
        = candidatesFrom (childrenServices ex) rest ?cur ?T' (Suc j')"
      by (auto simp: candidatesFrom_def)
    have "Suc j' < length ?T'"
      using Cons.IH[OF j'] Cons.prems(2,3,4) unfolding T Suc c by simp
    then show ?thesis by (simp add: T Suc)
  qed
qed

lemma execute_eq:
  "execute ex args =
     executeLevels ex (queueResolving ex) (queue (queueResolving ex ! 0)) (variableBase ex ++ args)"
  by (cases "queueResolving ex") (simp_all add: execute_def)


lemma execute_level:
  "j < length (fst (execute ex args)) \<Longrightarrow>
   fst (execute ex args) ! j =
     map (runGroup ex (candidatesAt ex (fst (execute ex args)) j)
            (recordAt ex args (fst (execute ex args)) j))
       (queueGrouped (queueResolving ex ! j))"
  unfolding execute_eq candidatesAt_def recordAt_def by (rule exec_level)


lemma execute_error:
  "snd (execute ex args) = Inl e \<Longrightarrow>
   e = TypingError \<and> fst (execute ex args) \<noteq> []
   \<and> list_ex isTypingError (last (fst (execute ex args)))"
  unfolding execute_eq by (rule exec_error)

lemma execute_typing_last:
  "j < length (fst (execute ex args)) \<Longrightarrow>
   list_ex isTypingError (fst (execute ex args) ! j) \<Longrightarrow>
   length (fst (execute ex args)) = Suc j \<and> snd (execute ex args) = Inl TypingError"
  unfolding execute_eq by (rule exec_typing_last)

lemma execute_progress:
  "j < length (fst (execute ex args)) \<Longrightarrow> Suc j < length (queueResolving ex) \<Longrightarrow>
   \<not> list_ex isTypingError (fst (execute ex args) ! j) \<Longrightarrow>
   candidatesAt ex (fst (execute ex args)) (Suc j) \<noteq> [] \<Longrightarrow>
   Suc j < length (fst (execute ex args))"
  unfolding execute_eq candidatesAt_def by (rule exec_progress)


subsection \<open>Runs, candidates and handlers\<close>

lemma isTypingError_iff: "isTypingError g \<longleftrightarrow> run_settled g = Inl TypingError"
  by (auto simp: isTypingError_def split: sum.splits error.splits)











lemma runGroup_services:
  "run_services (runGroup ex cur v grp) = filter (\<lambda>s. s \<in> set cur) (snd grp)"
  by (simp add: runGroup_def Let_def)

lemma runGroup_provider: "run_provider (runGroup ex cur v grp) = fst grp"
  by (simp add: runGroup_def Let_def)

lemma isSystemError_iff: "isSystemError g \<longleftrightarrow> run_settled g = Inl SystemError"
  by (auto simp: isSystemError_def split: sum.splits error.splits)

lemma resolve_system:
  "resolve (Some systemResolver) sm svs v = (Some (map (makeArgs v) svs), Inl SystemError)"
proof -
  have "validateAll (Some []) batch = Inr ()" for batch
    by (induction batch) (auto simp: validator_def)
  then show ?thesis by (simp add: resolve_def systemResolver_def)
qed


lemma built_resolvers: "ex_resolvers (built rs ctx) = rs"
  by (auto simp: built_def buildResolver_def split: option.splits sum.splits prod.splits)

lemma builds_built: "builds rs ctx \<Longrightarrow> buildResolver rs ctx = Some (Inr (built rs ctx))"
  by (auto simp: builds_def built_def split: option.splits sum.splits)

subsection \<open>Errors of provider groups\<close>

text \<open>
  C4. If a group of some level \<open>j\<close> of an execution settles with a \<open>TypingError\<close>, the
  call of \<open>execute\<close> fails with that \<open>TypingError\<close>, and level \<open>j\<close> is the last level that
  ran: no group of a later level is run, so no provider of a later level is invoked and
  none of its outputs is written into the value record.
\<close>

theorem c4_typing_error_is_fatal:
  assumes "j < length (fst (execute ex args))"
    and "g \<in> set (fst (execute ex args) ! j)"
    and "run_settled g = Inl TypingError"
  shows "snd (execute ex args) = Inl TypingError \<and> length (fst (execute ex args)) = Suc j"
proof -
  from assms(2,3) have "list_ex isTypingError (fst (execute ex args) ! j)"
    by (auto simp: list_ex_iff isTypingError_iff)
  from execute_typing_last[OF assms(1) this] show ?thesis by simp
qed

theorem c4_typing_error_witness:
  "1 < length typing_trace
   \<and> typing_trace ! 1 ! 0 \<in> set (typing_trace ! 1)
   \<and> run_settled (typing_trace ! 1 ! 0) = Inl TypingError
   \<and> snd (execute (built typed_resolvers typing_context) Map.empty) = Inl TypingError
   \<and> length typing_trace = 2
   \<and> batches typing_trace = [[(''Good'', [''a''])], [(''Typed'', [''b''])]]
   \<and> map (map key \<circ> queue) (queueResolving (built typed_resolvers typing_context))
       = [[''a''], [''b''], [''d'']]"
proof -
  have h1: "1 < length typing_trace" by code_simp
  have "0 < length (typing_trace ! 1)" by code_simp
  then have h2: "typing_trace ! 1 ! 0 \<in> set (typing_trace ! 1)" by (rule nth_mem)
  have "isTypingError (typing_trace ! 1 ! 0)" by code_simp
  then have h3: "run_settled (typing_trace ! 1 ! 0) = Inl TypingError"
    by (simp add: isTypingError_iff)
  have h4: "batches typing_trace = [[(''Good'', [''a''])], [(''Typed'', [''b''])]]"
    by code_simp
  have h5: "map (map key \<circ> queue) (queueResolving (built typed_resolvers typing_context))
       = [[''a''], [''b''], [''d'']]"
    by code_simp
  from c4_typing_error_is_fatal[of 1 "built typed_resolvers typing_context" Map.empty
      "typing_trace ! 1 ! 0"] h1 h2 h3
  have "snd (execute (built typed_resolvers typing_context) Map.empty) = Inl TypingError"
    "length typing_trace = 2"
    by (simp_all add: typing_trace_def)
  with h1 h2 h3 h4 h5 show ?thesis by simp
qed

text \<open>
  C6. A group whose provider is a reserved system provider, as \<open>Resolver.create\<close>
  registers it, invokes the provider with its batch and settles with the system
  placeholder failure. That failure does not leave \<open>execute\<close> (when \<open>execute\<close> fails, another
  group of the last level raised a \<open>TypingError\<close>), and the handlers of the group leave the
  value record and \<open>nextQueue\<close> as they are: no update, and no child removed.
\<close>

theorem c6_system_placeholder_skipped:
  assumes sys: "map_get (ex_resolvers ex) p = Some systemResolver"
    and j: "j < length (fst (execute ex args))"
    and g: "g \<in> set (fst (execute ex args) ! j)"
    and p: "run_provider g = p"
  shows "run_invoked g = Some (map (makeArgs (recordAt ex args (fst (execute ex args)) j)) (run_services g))
       \<and> run_settled g = Inl SystemError
       \<and> (\<forall>e. snd (execute ex args) = Inl e \<longrightarrow>
              (\<exists>h \<in> set (last (fst (execute ex args))). h \<noteq> g \<and> run_settled h = Inl TypingError))
       \<and> (\<forall>st. settle (childrenServices ex) g st = st)"
proof -
  from g execute_level[OF j] obtain grp where
    grp: "g = runGroup ex (candidatesAt ex (fst (execute ex args)) j)
            (recordAt ex args (fst (execute ex args)) j) grp"
    by auto
  from grp p have "fst grp = p" by (simp add: runGroup_def Let_def)
  with grp sys have inv: "run_invoked g = Some (map (makeArgs (recordAt ex args (fst (execute ex args)) j)) (run_services g))"
    and se: "run_settled g = Inl SystemError"
    by (simp_all add: runGroup_def Let_def resolve_system)
  have only_typing: "\<exists>h \<in> set (last (fst (execute ex args))). h \<noteq> g \<and> run_settled h = Inl TypingError"
    if "snd (execute ex args) = Inl e" for e
  proof -
    from execute_error[OF that] obtain h
      where h: "h \<in> set (last (fst (execute ex args)))" "run_settled h = Inl TypingError"
      by (auto simp: list_ex_iff isTypingError_iff)
    with se have "h \<noteq> g" by auto
    with h show ?thesis by blast
  qed
  have "settle (childrenServices ex) g st = st" for st
    using se by (simp add: settle_def)
  with inv se only_typing show ?thesis by blast
qed

theorem c6_system_placeholder_witness:
  "map_get (ex_resolvers (built echo_resolvers arguments_context)) ''Arguments''
     = Some systemResolver
   \<and> 1 < length arguments_trace
   \<and> arguments_trace ! 1 ! 0 \<in> set (arguments_trace ! 1)
   \<and> run_provider (arguments_trace ! 1 ! 0) = ''Arguments''
   \<and> wasInvoked (arguments_trace ! 1 ! 0)
   \<and> run_settled (arguments_trace ! 1 ! 0) = Inl SystemError
   \<and> (\<forall>st. settle (childrenServices (built echo_resolvers arguments_context))
              (arguments_trace ! 1 ! 0) st = st)
   \<and> batches arguments_trace
       = [[(''Good'', [''uno''])], [(''Arguments'', [''arguments''])], [(''Pp'', [''left''])]]
   \<and> entries (snd (execute (built echo_resolvers arguments_context) arguments_overrides))
        [''user_name'', ''left'']
       = Some [Some (Str ''Bob''), Some (Str ''Bob'')]"
proof -
  let ?ex = "built echo_resolvers arguments_context"
  have h1: "map_get (ex_resolvers ?ex) ''Arguments'' = Some systemResolver"
    by (simp add: built_resolvers echo_resolvers_def plain_resolvers_def createResolver_def
        SYSTEM_SERVICE_def)
  have h2: "1 < length arguments_trace" by code_simp
  have "0 < length (arguments_trace ! 1)" by code_simp
  then have h3: "arguments_trace ! 1 ! 0 \<in> set (arguments_trace ! 1)" by (rule nth_mem)
  have h4: "run_provider (arguments_trace ! 1 ! 0) = ''Arguments''" by code_simp
  have h5: "wasInvoked (arguments_trace ! 1 ! 0)" by code_simp
  have h6: "batches arguments_trace
       = [[(''Good'', [''uno''])], [(''Arguments'', [''arguments''])], [(''Pp'', [''left''])]]"
    by code_simp
  have h7: "entries (snd (execute ?ex arguments_overrides)) [''user_name'', ''left'']
       = Some [Some (Str ''Bob''), Some (Str ''Bob'')]"
    by code_simp
  from c6_system_placeholder_skipped[of ?ex "''Arguments''" 1 arguments_overrides
      "arguments_trace ! 1 ! 0"] h1 h2 h3 h4
  have "run_settled (arguments_trace ! 1 ! 0) = Inl SystemError"
    "\<forall>st. settle (childrenServices ?ex) (arguments_trace ! 1 ! 0) st = st"
    by (simp_all add: arguments_trace_def)
  with h1 h2 h3 h4 h5 h6 h7 show ?thesis by simp
qed




subsection \<open>Built plans\<close>

lemma map_get_set: "map_get (map_set k v m) k' = (if k' = k then Some v else map_get m k')"
  by (induction m) auto


lemma keys_map_set:
  "map fst (map_set k v m) = (if k \<in> set (map fst m) then map fst m else map fst m @ [k])"
  by (induction m) (fastforce simp: image_iff)+

lemma distinct_map_set: "distinct (map fst m) \<Longrightarrow> distinct (map fst (map_set k v m))"
  by (simp add: keys_map_set)

lemma map_get_distinct: "distinct (map fst m) \<Longrightarrow> (k, v) \<in> set m \<Longrightarrow> map_get m k = Some v"
  by (induction m) (auto simp: image_iff)

lemma groupByField_fold: "groupByField arr = fold groupStep arr []"
  by (simp add: groupByField_def groupStep_def[abs_def])

lemma groupStep_distinct: "distinct (map fst acc) \<Longrightarrow> distinct (map fst (groupStep a acc))"
  by (simp add: groupStep_def distinct_map_set split: option.splits)

lemma groupStep_get:
  "map_get (groupStep a acc) p =
     (if name a = p then Some ((case map_get acc p of Some g \<Rightarrow> g | None \<Rightarrow> []) @ [a])
      else map_get acc p)"
  by (simp add: groupStep_def map_get_set split: option.splits)

lemma group_fold_distinct:
  "distinct (map fst acc) \<Longrightarrow> distinct (map fst (fold groupStep arr acc))"
  by (induction arr arbitrary: acc) (simp_all add: groupStep_distinct)

lemma group_fold_get:
  "map_get (fold groupStep arr acc) p =
     (case map_get acc p of
        Some g \<Rightarrow> Some (g @ filter (\<lambda>s. name s = p) arr)
      | None \<Rightarrow> if filter (\<lambda>s. name s = p) arr = [] then None
                else Some (filter (\<lambda>s. name s = p) arr))"
proof (induction arr arbitrary: acc)
  case Nil
  then show ?case by (simp split: option.splits)
next
  case (Cons a arr)
  show ?case
    unfolding fold_Cons comp_def Cons.IH groupStep_get
    by (simp split: option.splits)
qed

lemma groupByField_distinct: "distinct (map fst (groupByField arr))"
  using group_fold_distinct[of "[]" arr] by (simp add: groupByField_fold)

lemma groupByField_get:
  "map_get (groupByField arr) p =
     (if filter (\<lambda>s. name s = p) arr = [] then None else Some (filter (\<lambda>s. name s = p) arr))"
  by (simp add: groupByField_fold group_fold_get)

lemma groupByField_members:
  assumes "(p, ms) \<in> set (groupByField arr)"
  shows "ms = filter (\<lambda>s. name s = p) arr \<and> ms \<noteq> []"
proof -
  have "map_get (groupByField arr) p = Some ms"
    by (rule map_get_distinct[OF groupByField_distinct assms])
  then show ?thesis
    unfolding groupByField_get by (simp split: if_splits)
qed


lemma filter_key_distinct:
  "distinct (map fst xs) \<Longrightarrow> (p, m) \<in> set xs \<Longrightarrow> filter (\<lambda>q. fst q = p) xs = [(p, m)]"
  by (induction xs) (auto simp: image_iff filter_empty_conv)

lemma build_parts:
  assumes "buildResolver rs ctx = Some (Inr ex)"
  shows "ex_resolvers ex = rs"
    and "\<forall>lvl \<in> set (queueResolving ex). queueGrouped lvl = groupByField (queue lvl)"
    and "serviceModels ex = snd (buildModels (variables ctx) (Map.empty, []))"
    and "calculateChildrenServices ctx = Inr (childrenServices ex)"
    and "calculateQueueResolving (childrenServices ex) (calculateRootServices ctx)
          = Some (map queue (queueResolving ex))"
  using assms
  by (auto simp: buildResolver_def comp_def split: sum.splits option.splits prod.splits)

lemma validateAll_nil: "validateAll am [] = Inr ()"
  by (cases am) auto

lemma resolve_empty:
  "fst (resolve (Some rv) sm [] v) = Some []
   \<and> (\<forall>u. snd (resolve (Some rv) sm [] v) = Inr u \<longrightarrow> u = Map.empty)"
  by (auto simp: resolve_def validateAll_nil split: sum.splits)

lemma settle_fst_Inl: "run_settled g = Inl e \<Longrightarrow> fst (settle ch g st) = fst st"
  by (cases e) (simp_all add: settle_def)

subsection \<open>Empty batches\<close>

text \<open>
  C10, as amended. In a built plan, let level \<open>i\<close> have run without a \<open>TypingError\<close>, let
  the plan have a level \<open>i + 1\<close> whose candidate set is not empty, and let every member
  of a provider group of level \<open>i + 1\<close> be outside the candidate set, the provider being
  registered. Then level \<open>i + 1\<close> runs, the group is run exactly once there, its callback
  is invoked with the empty batch, and its handlers leave the value record as it is. (When
  the candidate set of level \<open>i + 1\<close> is empty, the loop ends before that level and the
  callback is not invoked.)
\<close>

theorem c10_empty_batch_invoked:
  assumes build: "buildResolver rs ctx = Some (Inr ex)"
    and i: "i < length (fst (execute ex args))"
    and nf: "\<forall>h \<in> set (fst (execute ex args) ! i). run_settled h \<noteq> Inl TypingError"
    and more: "Suc i < length (queueResolving ex)"
    and cand: "candidatesAt ex (fst (execute ex args)) (Suc i) \<noteq> []"
    and grp: "(p, members) \<in> set (queueGrouped (queueResolving ex ! Suc i))"
    and pruned: "set members \<inter> set (candidatesAt ex (fst (execute ex args)) (Suc i)) = {}"
    and reg: "map_get rs p = Some rv"
  shows "Suc i < length (fst (execute ex args))
       \<and> (\<exists>g. filter (\<lambda>h. run_provider h = p) (fst (execute ex args) ! Suc i) = [g]
              \<and> run_services g = [] \<and> run_invoked g = Some []
              \<and> (\<forall>st. fst (settle (childrenServices ex) g st) = fst st))"
proof -
  let ?T = "fst (execute ex args)"
  let ?c = "candidatesAt ex ?T (Suc i)"
  let ?v = "recordAt ex args ?T (Suc i)"
  let ?groups = "queueGrouped (queueResolving ex ! Suc i)"
  let ?g = "runGroup ex ?c ?v (p, members)"
  from nf have "\<not> list_ex isTypingError (?T ! i)" by (auto simp: list_ex_iff isTypingError_iff)
  from execute_progress[OF i more this cand] have lt: "Suc i < length ?T" .
  have "queueGrouped (queueResolving ex ! Suc i) = groupByField (queue (queueResolving ex ! Suc i))"
    using build_parts(2)[OF build] more by simp
  then have "distinct (map fst ?groups)" by (simp add: groupByField_distinct)
  from filter_key_distinct[OF this grp]
  have one: "filter (\<lambda>h. run_provider h = p) (?T ! Suc i) = [?g]"
    by (simp add: execute_level[OF lt] filter_map comp_def runGroup_provider)
  have fe: "filter (\<lambda>s. s \<in> set ?c) members = []"
    using pruned by (auto simp: filter_empty_conv)
  have svs: "run_services ?g = []"
    using fe by (simp add: runGroup_services)
  have r: "map_get (ex_resolvers ex) p = Some rv" using reg build_parts(1)[OF build] by simp
  have inv: "run_invoked ?g = Some []"
    using r resolve_empty[of rv "serviceModels ex" ?v]
    by (simp add: runGroup_def Let_def fe)
  have rs: "run_settled ?g = snd (resolve (Some rv) (serviceModels ex) [] ?v)"
    using fe r by (simp add: runGroup_def Let_def)
  have keep: "fst (settle (childrenServices ex) ?g st) = fst st" for st
  proof (cases "run_settled ?g")
    case (Inl e)
    then show ?thesis by (rule settle_fst_Inl)
  next
    case (Inr u)
    with rs resolve_empty[of rv "serviceModels ex" ?v] have "u = Map.empty" by simp
    with Inr show ?thesis by (simp add: settle_def)
  qed
  have "\<exists>g. filter (\<lambda>h. run_provider h = p) (?T ! Suc i) = [g]
              \<and> run_services g = [] \<and> run_invoked g = Some []
              \<and> (\<forall>st. fst (settle (childrenServices ex) g st) = fst st)"
    using one svs inv keep by (intro exI[of _ ?g] conjI allI)
  with lt show ?thesis by (intro conjI)
qed

theorem c10_empty_batch_witness:
  "builds plain_resolvers failing_context
   \<and> 0 < length failing_trace
   \<and> \<not> list_ex isTypingError (failing_trace ! 0)
   \<and> Suc 0 < length (queueResolving (built plain_resolvers failing_context))
   \<and> map key (candidatesAt (built plain_resolvers failing_context) failing_trace (Suc 0))
       = [''c'']
   \<and> map (\<lambda>q. (fst q, map key (snd q)))
         (queueGrouped (queueResolving (built plain_resolvers failing_context) ! Suc 0))
       = [(''Bb'', [''b'']), (''Good'', [''c''])]
   \<and> map_has plain_resolvers ''Bb''
   \<and> Suc 0 < length failing_trace
   \<and> (\<exists>g. filter (\<lambda>h. run_provider h = ''Bb'') (failing_trace ! Suc 0) = [g]
          \<and> run_services g = [] \<and> run_invoked g = Some []
          \<and> (\<forall>st. fst (settle (childrenServices (built plain_resolvers failing_context)) g st)
                 = fst st))"
proof -
  let ?ex = "built plain_resolvers failing_context"
  let ?G = "queueGrouped (queueResolving ?ex ! Suc 0)"
  have b: "builds plain_resolvers failing_context" by code_simp
  have h1: "0 < length failing_trace" by code_simp
  have h2: "\<not> list_ex isTypingError (failing_trace ! 0)" by code_simp
  have h3: "Suc 0 < length (queueResolving ?ex)" by code_simp
  have h4: "map key (candidatesAt ?ex failing_trace (Suc 0)) = [''c'']" by code_simp
  have h5: "map (\<lambda>q. (fst q, map key (snd q))) ?G = [(''Bb'', [''b'']), (''Good'', [''c''])]"
    by code_simp
  have h6: "map_has plain_resolvers ''Bb''" by code_simp
  have "0 < length ?G" by code_simp
  then have "?G ! 0 \<in> set ?G" by (rule nth_mem)
  then have g1: "(fst (?G ! 0), snd (?G ! 0)) \<in> set ?G" by simp
  have p: "fst (?G ! 0) = ''Bb''" by code_simp
  have "list_all (\<lambda>s. s \<notin> set (candidatesAt ?ex failing_trace (Suc 0))) (snd (?G ! 0))"
    by code_simp
  then have g2: "set (snd (?G ! 0)) \<inter> set (candidatesAt ?ex failing_trace (Suc 0)) = {}"
    by (auto simp: list_all_iff)
  have g3: "map_get plain_resolvers ''Bb''
      = Some \<lparr> argsModel = Some [], callback = good_callback \<rparr>"
    by (simp add: plain_resolvers_def createResolver_def SYSTEM_SERVICE_def)
  have nf: "\<forall>h \<in> set (fst (execute ?ex Map.empty) ! 0). run_settled h \<noteq> Inl TypingError"
    using h2 by (auto simp: list_ex_iff isTypingError_iff failing_trace_def)
  have c: "candidatesAt ?ex (fst (execute ?ex Map.empty)) (Suc 0) \<noteq> []"
    using h4 by (auto simp: failing_trace_def)
  from c10_empty_batch_invoked[OF builds_built[OF b] _ nf h3 c, of "''Bb''" "snd (?G ! 0)"
      "\<lparr> argsModel = Some [], callback = good_callback \<rparr>"]
    h1 g1 g2 g3 p
  have "Suc 0 < length failing_trace
   \<and> (\<exists>g. filter (\<lambda>h. run_provider h = ''Bb'') (failing_trace ! Suc 0) = [g]
          \<and> run_services g = [] \<and> run_invoked g = Some []
          \<and> (\<forall>st. fst (settle (childrenServices ?ex) g st) = fst st))"
    by (simp add: failing_trace_def)
  with b h1 h2 h3 h4 h5 h6 show ?thesis by simp
qed

text \<open>
  The claim as stated fails when the pruned group is all there is at its level: in the
  chain, the only service instance of level 1 is pruned, the loop ends after level 0, and
  the callback of \<open>Bb\<close> is not invoked at all.
\<close>

theorem c10_chain_counterexample:
  "builds plain_resolvers chain_context
   \<and> map (\<lambda>q. (fst q, map key (snd q)))
         (queueGrouped (queueResolving (built plain_resolvers chain_context) ! 1))
       = [(''Bb'', [''b''])]
   \<and> map key (candidatesAt (built plain_resolvers chain_context) chain_trace 1) = []
   \<and> batches chain_trace = [[(''Fail'', [''a''])]]
   \<and> entries (snd (execute (built plain_resolvers chain_context) Map.empty)) [''pa'', ''pb'']
       = Some [None, None]"
  by code_simp

subsection \<open>Runtime overrides\<close>















subsection \<open>Batches\<close>



























end
